theory Spec2Isabelle
  imports Complex_Main "HOL-Library.Product_Lexorder"
begin

section \<open>Conventions of the embedding\<close>

text \<open>
  The verification engine of \<^verbatim>\<open>codex_hull_lab/tools\<close> is Python over numpy and trimesh.
  Measured geometry (coordinates, distances, areas, thresholds) is modelled as \<open>real\<close>:
  exact arithmetic, no rounding error. The resolved reference constants, which
  \<^verbatim>\<open>parse_reference_constants\<close> computes from the expressions of a constants file, are
  \<open>pyfloat\<close>: a finite number, an infinity or NaN, with the comparisons of IEEE 754.
  Python ints are \<open>int\<close>, counts \<open>nat\<close>. Every exception the modelled code can raise is a
  value of \<open>py_error\<close>; a function that can raise returns \<open>py_error + 'a\<close> with \<open>Inl\<close> for
  the exception.
\<close>

datatype py_error =
    KeyError string
  | TypeError
  | ValueError
  | ZeroDivisionError
  | AttributeError
  | OSError
  | OtherError

type_synonym point = "real \<times> real \<times> real"

definition px :: "point \<Rightarrow> real" where
  "px p = fst p"

definition py :: "point \<Rightarrow> real" where
  "py p = fst (snd p)"

definition pz :: "point \<Rightarrow> real" where
  "pz p = snd (snd p)"

definition translate :: "point \<Rightarrow> point \<Rightarrow> point" where
  "translate t p = (px p + px t, py p + py t, pz p + pz t)"

section \<open>Reference constants (verify\_reference\_fit.py)\<close>

text \<open>\<^verbatim>\<open>CANONICAL_REFERENCE_CONSTANTS\<close>: a dict, iterated in insertion order.\<close>

definition CANONICAL_REFERENCE_CONSTANTS :: "(string \<times> real) list" where
  "CANONICAL_REFERENCE_CONSTANTS =
    [(''REFERENCE_PIVOT_Y'', 33),
     (''REFERENCE_PIVOT_Z'', 38),
     (''REFERENCE_SLOT_DIAMETER'', 75 / 10),
     (''REFERENCE_BALL_DIAMETER'', 725 / 100),
     (''REFERENCE_SLOT_ENTRY_Z'', 45),
     (''REFERENCE_FRAME_SPACING'', 16),
     (''REFERENCE_FRAME_BOTTOM_Z'', 17),
     (''REFERENCE_COORDINATE_RIM_Z'', 45),
     (''REFERENCE_MODEL_RIM_Z'', 0)]"

text \<open>
  A Python float: finite (idealised as a real number), an infinity, or NaN. NaN arises
  as \<^verbatim>\<open>inf - inf\<close>, and every ordering comparison with NaN is false.
\<close>

datatype pyfloat = Fin real | PosInf | NegInf | NaN

fun fl_sub :: "pyfloat \<Rightarrow> pyfloat \<Rightarrow> pyfloat" where
  "fl_sub NaN b = NaN"
| "fl_sub a NaN = NaN"
| "fl_sub (Fin a) (Fin b) = Fin (a - b)"
| "fl_sub (Fin a) PosInf = NegInf"
| "fl_sub (Fin a) NegInf = PosInf"
| "fl_sub PosInf PosInf = NaN"
| "fl_sub PosInf b = PosInf"
| "fl_sub NegInf NegInf = NaN"
| "fl_sub NegInf b = NegInf"

fun fl_abs :: "pyfloat \<Rightarrow> pyfloat" where
  "fl_abs (Fin a) = Fin \<bar>a\<bar>"
| "fl_abs PosInf = PosInf"
| "fl_abs NegInf = PosInf"
| "fl_abs NaN = NaN"

text \<open>\<^verbatim>\<open>a > b\<close> and \<^verbatim>\<open>a <= b\<close> on floats.\<close>

fun fl_gt :: "pyfloat \<Rightarrow> pyfloat \<Rightarrow> bool" where
  "fl_gt NaN b = False"
| "fl_gt a NaN = False"
| "fl_gt (Fin a) (Fin b) = (a > b)"
| "fl_gt a PosInf = False"
| "fl_gt NegInf b = False"
| "fl_gt PosInf b = True"
| "fl_gt a NegInf = True"

fun fl_le :: "pyfloat \<Rightarrow> pyfloat \<Rightarrow> bool" where
  "fl_le NaN b = False"
| "fl_le a NaN = False"
| "fl_le (Fin a) (Fin b) = (a \<le> b)"
| "fl_le a PosInf = True"
| "fl_le NegInf b = True"
| "fl_le PosInf b = False"
| "fl_le a NegInf = False"

record constant_delta =
  delta_name :: string
  delta_expected :: real
  delta_observed :: pyfloat
  delta_mm :: pyfloat

text \<open>
  The loop of \<^verbatim>\<open>evaluate_reference_constant_lock\<close>, with the loop variables
  \<open>locked\<close> and \<open>deltas\<close> as accumulators. \<^verbatim>\<open>constants.get(name)\<close> is \<open>None\<close> for a
  missing key and \<^verbatim>\<open>None - expected\<close> raises TypeError. The canonical values are finite
  literals.
\<close>

fun lock_loop ::
  "(string \<rightharpoonup> pyfloat) \<Rightarrow> (string \<times> real) list \<Rightarrow> bool \<Rightarrow> constant_delta list
    \<Rightarrow> py_error + (bool \<times> constant_delta list)" where
  "lock_loop constants [] locked deltas = Inr (locked, deltas)"
| "lock_loop constants ((name, expected) # rest) locked deltas =
    (case constants name of
       None \<Rightarrow> Inl TypeError
     | Some observed \<Rightarrow>
         (let delta = fl_sub observed (Fin expected);
              locked' = (if fl_gt (fl_abs delta) (Fin (1 / 1000000)) then False else locked)
          in lock_loop constants rest locked'
               (deltas @ [\<lparr>delta_name = name, delta_expected = expected,
                           delta_observed = observed, delta_mm = delta\<rparr>])))"

definition evaluate_reference_constant_lock ::
  "(string \<rightharpoonup> pyfloat) \<Rightarrow> py_error + (bool \<times> constant_delta list)" where
  "evaluate_reference_constant_lock constants =
     lock_loop constants CANONICAL_REFERENCE_CONSTANTS True []"

text \<open>
  What the delta list holds for one canonical constant (used to state the lock property).
\<close>

definition delta_entry :: "(string \<rightharpoonup> pyfloat) \<Rightarrow> string \<times> real \<Rightarrow> constant_delta" where
  "delta_entry constants ne =
     \<lparr>delta_name = fst ne, delta_expected = snd ne,
      delta_observed = the (constants (fst ne)),
      delta_mm = fl_sub (the (constants (fst ne))) (Fin (snd ne))\<rparr>"

section \<open>numpy and Python helpers\<close>

text \<open>
  Python's \<^verbatim>\<open>round\<close> on a float rounds half to even and returns an int.
\<close>

definition py_round :: "real \<Rightarrow> int" where
  "py_round x =
     (let f = \<lfloor>x\<rfloor>; d = x - of_int f
      in if d < 1 / 2 then f else if d > 1 / 2 then f + 1
         else if even f then f else f + 1)"

text \<open>\<^verbatim>\<open>round(v, 6)\<close>: half to even at the sixth decimal.\<close>

definition round6 :: "real \<Rightarrow> real" where
  "round6 v = of_int (py_round (v * 1000000)) / 1000000"

text \<open>
  \<^verbatim>\<open>np.linspace(start, stop, num)\<close> with the default \<^verbatim>\<open>endpoint=True\<close>: a negative
  \<open>num\<close> raises ValueError, \<open>num = 1\<close> gives \<open>[start]\<close>, otherwise \<open>num\<close> evenly spaced
  values from \<open>start\<close> to \<open>stop\<close>.
\<close>

definition linspace :: "real \<Rightarrow> real \<Rightarrow> int \<Rightarrow> py_error + real list" where
  "linspace start stop num =
     (if num < 0 then Inl ValueError
      else if num = 1 then Inr [start]
      else Inr (map (\<lambda>i. start + of_nat i * ((stop - start) / of_int (num - 1)))
                  [0 ..< nat num]))"

text \<open>\<^verbatim>\<open>np.min\<close> and \<^verbatim>\<open>np.max\<close> raise ValueError on an empty array.\<close>

definition np_min :: "real list \<Rightarrow> py_error + real" where
  "np_min xs = (if xs = [] then Inl ValueError else Inr (Min (set xs)))"

definition np_max :: "real list \<Rightarrow> py_error + real" where
  "np_max xs = (if xs = [] then Inl ValueError else Inr (Max (set xs)))"

text \<open>
  \<^verbatim>\<open>np.argmax\<close>: the first index of the maximum; ValueError on an empty array.
  \<open>argmax_from xs i best bv\<close> scans \<open>xs\<close> (whose first element has index \<open>i\<close>) with the
  best index and value so far.
\<close>

fun argmax_from :: "real list \<Rightarrow> nat \<Rightarrow> nat \<Rightarrow> real \<Rightarrow> nat" where
  "argmax_from [] i best bv = best"
| "argmax_from (x # xs) i best bv =
     (if x > bv then argmax_from xs (Suc i) i x else argmax_from xs (Suc i) best bv)"

definition np_argmax :: "real list \<Rightarrow> py_error + nat" where
  "np_argmax xs = (case xs of [] \<Rightarrow> Inl ValueError | x # rest \<Rightarrow> Inr (argmax_from rest 1 0 x))"

text \<open>
  A \<^verbatim>\<open>for\<close> loop that appends one result per item and stops at the first exception.
\<close>

fun collect :: "('a \<Rightarrow> py_error + 'b) \<Rightarrow> 'a list \<Rightarrow> py_error + 'b list" where
  "collect f [] = Inr []"
| "collect f (x # xs) =
     (case f x of
        Inl e \<Rightarrow> Inl e
      | Inr y \<Rightarrow> (case collect f xs of Inl e \<Rightarrow> Inl e | Inr ys \<Rightarrow> Inr (y # ys)))"

text \<open>\<^verbatim>\<open>d[key]\<close> on a dict of floats: KeyError for a missing key.\<close>

definition lookup :: "(string \<rightharpoonup> real) \<Rightarrow> string \<Rightarrow> py_error + real" where
  "lookup d k = (case d k of None \<Rightarrow> Inl (KeyError k) | Some v \<Rightarrow> Inr v)"

section \<open>Meshes and the geometry kernel (trimesh)\<close>

text \<open>
  A mesh carries the trimesh attributes the code reads: \<^verbatim>\<open>vertices\<close>,
  \<^verbatim>\<open>triangles_center\<close> (one centroid per face), \<^verbatim>\<open>faces\<close>, \<^verbatim>\<open>face_normals\<close> and
  \<^verbatim>\<open>area_faces\<close> (one normal and one area per face) and \<^verbatim>\<open>is_watertight\<close>.
  The two geometric queries the code calls are trimesh functions, not code of this
  repository; they are parameters of the model, so every property holds for any kernel:
  \<^item> \<open>signed_distance K m p\<close> is \<^verbatim>\<open>trimesh.proximity.signed_distance(m, [p])[0]\<close>;
  \<^item> \<open>intersects_location K m origin direction\<close> is the list of hit locations
    \<^verbatim>\<open>m.ray.intersects_location\<close> reports for that one ray with \<^verbatim>\<open>multiple_hits=True\<close>.
\<close>

record mesh =
  vertices :: "point list"
  triangles_center :: "point list"
  faces :: "(nat \<times> nat \<times> nat) list"
  face_normals :: "point list"
  area_faces :: "real list"
  is_watertight :: bool

record geometry_kernel =
  signed_distance :: "mesh \<Rightarrow> point \<Rightarrow> real"
  intersects_location :: "mesh \<Rightarrow> point \<Rightarrow> point \<Rightarrow> point list"

section \<open>Slot, frame and floor fit (verify\_reference\_fit.py)\<close>

record VerificationThresholds =
  axis_tolerance_mm :: real
  slot_depth_target_mm :: real
  slot_depth_tolerance_mm :: real
  corridor_radial_clearance_min_mm :: real
  frame_penetration_max_mm :: real
  frame_min_gap_mm :: real
  floor_clearance_min_mm :: real
  axis_scan_radius_mm :: real
  axis_scan_step_mm :: real
  corridor_samples :: int
  frame_bottom_z_tolerance_mm :: real

text \<open>The dataclass defaults.\<close>

definition default_thresholds :: VerificationThresholds where
  "default_thresholds =
     \<lparr>axis_tolerance_mm = 25 / 100,
      slot_depth_target_mm = 7,
      slot_depth_tolerance_mm = 5 / 100,
      corridor_radial_clearance_min_mm = 8 / 100,
      frame_penetration_max_mm = 1 / 100,
      frame_min_gap_mm = 8 / 100,
      floor_clearance_min_mm = 2,
      axis_scan_radius_mm = 8 / 10,
      axis_scan_step_mm = 1 / 10,
      corridor_samples = 29,
      frame_bottom_z_tolerance_mm = 5 / 100\<rparr>"

text \<open>
  \<^verbatim>\<open>build_thresholds\<close>: the command line values, with the corridor sample count raised
  to at least 2 and the bottom tolerance to at least 0.001.
\<close>

definition build_thresholds :: "VerificationThresholds \<Rightarrow> VerificationThresholds" where
  "build_thresholds args =
     args\<lparr>corridor_samples := max 2 (corridor_samples args),
          frame_bottom_z_tolerance_mm := max (1 / 1000) (frame_bottom_z_tolerance_mm args)\<rparr>"

text \<open>
  \<^verbatim>\<open>slot_scan_grid\<close>. The thresholds are Python floats, so a zero step raises
  ZeroDivisionError. \<^verbatim>\<open>np.meshgrid(xs, ys, indexing="xy")\<close> flattened row by row lists,
  for each \<open>y\<close> in turn, every \<open>x\<close>.
\<close>

definition slot_scan_grid ::
  "real \<Rightarrow> real \<Rightarrow> real \<Rightarrow> real \<Rightarrow> real \<Rightarrow> py_error + point list" where
  "slot_scan_grid expected_x expected_y seat_z radius step =
     (if step = 0 then Inl ZeroDivisionError
      else
        (let points_per_axis = py_round ((2 * radius) / step) + 1 in
         case linspace (expected_x - radius) (expected_x + radius) points_per_axis of
           Inl e \<Rightarrow> Inl e
         | Inr xs \<Rightarrow>
             (case linspace (expected_y - radius) (expected_y + radius) points_per_axis of
                Inl e \<Rightarrow> Inl e
              | Inr ys \<Rightarrow> Inr (concat (map (\<lambda>y. map (\<lambda>x. (x, y, seat_z)) xs) ys)))))"

record slot_check =
  expected_x_mm :: real
  expected_y_mm :: real
  observed_x_mm :: real
  observed_y_mm :: real
  axis_error_mm :: real
  seat_free_radius_mm :: real
  seat_radial_clearance_mm :: real
  corridor_min_free_radius_mm :: real
  corridor_min_radial_clearance_mm :: real
  axis_pass :: bool
  corridor_pass :: bool

text \<open>
  The vertical insertion path of \<^verbatim>\<open>measure_slot_geometry\<close>: the points
  \<^verbatim>\<open>np.column_stack((full_like(zs, observed_x), full_like(zs, observed_y), zs))\<close>.
\<close>

definition corridor_path :: "real \<Rightarrow> real \<Rightarrow> real list \<Rightarrow> point list" where
  "corridor_path observed_x observed_y zs = map (\<lambda>z. (observed_x, observed_y, z)) zs"

definition measure_slot_geometry ::
  "geometry_kernel \<Rightarrow> mesh \<Rightarrow> real \<Rightarrow> real \<Rightarrow> real \<Rightarrow> real \<Rightarrow> real
    \<Rightarrow> VerificationThresholds \<Rightarrow> py_error + slot_check" where
  "measure_slot_geometry K hull_mesh expected_x expected_y seat_z entry_z ball_radius thresholds =
     (case slot_scan_grid expected_x expected_y seat_z
             (axis_scan_radius_mm thresholds) (axis_scan_step_mm thresholds) of
        Inl e \<Rightarrow> Inl e
      | Inr grid \<Rightarrow>
          (let scan_signed = map (signed_distance K hull_mesh) grid;
               scan_free_radius = map uminus scan_signed
           in case np_argmax scan_free_radius of
                Inl e \<Rightarrow> Inl e
              | Inr best_idx \<Rightarrow>
                  (let observed_x = px (grid ! best_idx);
                       observed_y = py (grid ! best_idx);
                       seat_free_radius = scan_free_radius ! best_idx;
                       seat_radial_clearance = seat_free_radius - ball_radius;
                       axis_error = sqrt ((observed_x - expected_x)\<^sup>2 + (observed_y - expected_y)\<^sup>2)
                   in case linspace seat_z entry_z (corridor_samples thresholds) of
                        Inl e \<Rightarrow> Inl e
                      | Inr zs \<Rightarrow>
                          (let path = corridor_path observed_x observed_y zs;
                               corridor_signed = map (signed_distance K hull_mesh) path;
                               corridor_free_radius = map uminus corridor_signed
                           in case np_min corridor_free_radius of
                                Inl e \<Rightarrow> Inl e
                              | Inr corridor_min_free_radius \<Rightarrow>
                                  (let corridor_min_radial_clearance =
                                         corridor_min_free_radius - ball_radius
                                   in Inr \<lparr>expected_x_mm = expected_x,
                                           expected_y_mm = expected_y,
                                           observed_x_mm = observed_x,
                                           observed_y_mm = observed_y,
                                           axis_error_mm = axis_error,
                                           seat_free_radius_mm = seat_free_radius,
                                           seat_radial_clearance_mm = seat_radial_clearance,
                                           corridor_min_free_radius_mm = corridor_min_free_radius,
                                           corridor_min_radial_clearance_mm =
                                             corridor_min_radial_clearance,
                                           axis_pass =
                                             (axis_error \<le> axis_tolerance_mm thresholds),
                                           corridor_pass =
                                             (corridor_min_radial_clearance
                                                \<ge> corridor_radial_clearance_min_mm thresholds)\<rparr>)))))"

text \<open>
  \<^verbatim>\<open>measure_floor_clearances\<close>. One downward ray per bottom point, cast from 1e-4 below
  it. The loop body is \<open>floor_clearance_of\<close>: \<open>None\<close> stands for either \<^verbatim>\<open>continue\<close>
  (no hit on the ray, or no hit more than 1e-6 below the point), \<open>Some c\<close> for the
  appended clearance.
\<close>

definition floor_clearance_of :: "geometry_kernel \<Rightarrow> mesh \<Rightarrow> point \<Rightarrow> real option" where
  "floor_clearance_of K hull_mesh point =
     (let hits = intersects_location K hull_mesh
                   (translate (0, 0, - (1 / 10000)) point) (0, 0, - 1)
      in if hits = [] then None
         else
           (let z_hits = filter (\<lambda>z. z < pz point - 1 / 1000000) (map pz hits)
            in if z_hits = [] then None
               else (let floor_z = Max (set z_hits) in Some (pz point - floor_z))))"

definition measure_floor_clearances :: "geometry_kernel \<Rightarrow> mesh \<Rightarrow> point list \<Rightarrow> real list" where
  "measure_floor_clearances K hull_mesh bottom_points =
     (if bottom_points = [] then []
      else List.map_filter (floor_clearance_of K hull_mesh) bottom_points)"

record frame_check =
  placement_x_mm :: real
  sample_point_count :: nat
  max_penetration_mm :: real
  penetrating_points :: nat
  penetrating_points_over_tolerance :: nat
  min_gap_mm :: real
  frame_bottom_z_mm :: real
  bottom_probe_count :: nat
  placement_floor_clearance_min_mm :: "real option"
  floor_clearance_samples_mm :: "real list"
  interference_pass :: bool
  floor_clearance_pass :: bool

text \<open>
  The sample points of a frame: \<^verbatim>\<open>np.vstack((frame_mesh.vertices,
  frame_mesh.triangles_center))\<close>.
\<close>

definition frame_sample_points :: "mesh \<Rightarrow> point list" where
  "frame_sample_points frame_mesh = vertices frame_mesh @ triangles_center frame_mesh"

text \<open>
  The body of the placement loop of \<^verbatim>\<open>analyze_frame_fit\<close> for one \<open>x_sign\<close>.
  \<^verbatim>\<open>np.max(sample_signed)\<close> and \<^verbatim>\<open>np.min(frame_vertices[:, 2])\<close> raise on an empty
  array; the placement's \<^verbatim>\<open>floor_clearance_min_mm\<close> is \<open>None\<close> when no clearance was
  sampled.
\<close>

definition frame_placement ::
  "geometry_kernel \<Rightarrow> mesh \<Rightarrow> mesh \<Rightarrow> real \<Rightarrow> real \<Rightarrow> VerificationThresholds \<Rightarrow> int
    \<Rightarrow> py_error + frame_check" where
  "frame_placement K hull_mesh frame_mesh frame_spacing frame_alignment_z thresholds x_sign =
     (let sample_points = frame_sample_points frame_mesh;
          x_offset = of_int x_sign * frame_spacing;
          translation = (x_offset, 0, frame_alignment_z);
          transformed_samples = map (translate translation) sample_points;
          sample_signed = map (signed_distance K hull_mesh) transformed_samples
      in case np_max sample_signed of
           Inl e \<Rightarrow> Inl e
         | Inr max_signed \<Rightarrow>
             (let max_penetration = max 0 max_signed;
                  n_penetrating = length (filter (\<lambda>d. d > 0) sample_signed);
                  n_over_tolerance =
                    length (filter (\<lambda>d. d > frame_penetration_max_mm thresholds) sample_signed);
                  non_penetrating = filter (\<lambda>d. d \<le> 0) sample_signed;
                  min_gap = (if non_penetrating \<noteq> []
                             then Min (set (map uminus non_penetrating)) else 0);
                  frame_vertices = map (translate translation) (vertices frame_mesh)
              in case np_min (map pz frame_vertices) of
                   Inl e \<Rightarrow> Inl e
                 | Inr min_z \<Rightarrow>
                     (let bottom_points =
                            filter (\<lambda>v. \<bar>pz v - min_z\<bar> \<le> frame_bottom_z_tolerance_mm thresholds)
                              frame_vertices;
                          floor_clearances = measure_floor_clearances K hull_mesh bottom_points;
                          floor_clearance_min =
                            (if floor_clearances \<noteq> [] then Some (Min (set floor_clearances))
                             else None)
                      in Inr \<lparr>placement_x_mm = x_offset,
                              sample_point_count = length transformed_samples,
                              max_penetration_mm = max_penetration,
                              penetrating_points = n_penetrating,
                              penetrating_points_over_tolerance = n_over_tolerance,
                              min_gap_mm = min_gap,
                              frame_bottom_z_mm = min_z,
                              bottom_probe_count = length bottom_points,
                              placement_floor_clearance_min_mm = floor_clearance_min,
                              floor_clearance_samples_mm = floor_clearances,
                              interference_pass =
                                (n_over_tolerance = 0 \<and> min_gap \<ge> frame_min_gap_mm thresholds),
                              floor_clearance_pass =
                                (case floor_clearance_min of
                                   None \<Rightarrow> False
                                 | Some c \<Rightarrow> c \<ge> floor_clearance_min_mm thresholds)\<rparr>)))"

definition analyze_frame_fit ::
  "geometry_kernel \<Rightarrow> mesh \<Rightarrow> mesh \<Rightarrow> real \<Rightarrow> real \<Rightarrow> VerificationThresholds
    \<Rightarrow> py_error + frame_check list" where
  "analyze_frame_fit K hull_mesh frame_mesh frame_spacing frame_alignment_z thresholds =
     collect (frame_placement K hull_mesh frame_mesh frame_spacing frame_alignment_z thresholds)
       [- 1, 1]"

record fit_measurements =
  seat_z_model_mm :: real
  entry_z_model_mm :: real
  frame_alignment_z_mm :: real
  slot_depth_mm :: real
  slot_diameter_mm :: real
  ball_diameter_mm :: real
  slot_radial_clearance_target_mm :: real
  slot_checks :: "slot_check list"
  frame_checks :: "frame_check list"
  overall_min_frame_gap_mm :: "real option"
  overall_floor_clearance_min_mm :: "real option"
  hull_mesh_faces :: nat
  frame_mesh_faces :: nat
  slot_plug_mesh_faces :: nat
  slot_plug_mesh_watertight :: bool

record fit_analysis =
  fit_measurements :: fit_measurements
  fit_gates :: "(string \<times> bool) list"
  fit_pass :: bool

text \<open>The nested \<open>x_sign\<close>, \<open>y_sign\<close> loops visit the four seats in this order.\<close>

definition slot_signs :: "(int \<times> int) list" where
  "slot_signs = concat (map (\<lambda>x_sign. map (\<lambda>y_sign. (x_sign, y_sign)) [- 1, 1]) [- 1, 1])"

text \<open>
  \<^verbatim>\<open>analyze_reference_fit\<close>. The eight constant lookups raise KeyError in source order;
  the gates dict keeps its insertion order and \<^verbatim>\<open>all(gates.values())\<close> is the verdict.
\<close>

definition analyze_reference_fit ::
  "geometry_kernel \<Rightarrow> mesh \<Rightarrow> mesh \<Rightarrow> mesh \<Rightarrow> (string \<rightharpoonup> real) \<Rightarrow> VerificationThresholds
    \<Rightarrow> bool \<Rightarrow> py_error + fit_analysis" where
  "analyze_reference_fit K hull_mesh frame_mesh slot_plug_mesh reference_constants thresholds
      reference_constants_locked =
   (case lookup reference_constants ''REFERENCE_FRAME_SPACING'' of Inl e \<Rightarrow> Inl e
    | Inr frame_spacing \<Rightarrow>
   (case lookup reference_constants ''REFERENCE_PIVOT_Y'' of Inl e \<Rightarrow> Inl e
    | Inr pivot_y \<Rightarrow>
   (case lookup reference_constants ''REFERENCE_SLOT_DIAMETER'' of Inl e \<Rightarrow> Inl e
    | Inr slot_diameter \<Rightarrow>
   (case lookup reference_constants ''REFERENCE_BALL_DIAMETER'' of Inl e \<Rightarrow> Inl e
    | Inr ball_diameter \<Rightarrow>
   (case lookup reference_constants ''REFERENCE_PIVOT_Z'' of Inl e \<Rightarrow> Inl e
    | Inr pivot_z \<Rightarrow>
   (case lookup reference_constants ''REFERENCE_SLOT_ENTRY_Z'' of Inl e \<Rightarrow> Inl e
    | Inr slot_entry_z \<Rightarrow>
   (case lookup reference_constants ''REFERENCE_COORDINATE_RIM_Z'' of Inl e \<Rightarrow> Inl e
    | Inr coordinate_rim_z \<Rightarrow>
   (case lookup reference_constants ''REFERENCE_MODEL_RIM_Z'' of Inl e \<Rightarrow> Inl e
    | Inr model_rim_z \<Rightarrow>
     (let seat_z_model = pivot_z - coordinate_rim_z + model_rim_z;
          entry_z_model = slot_entry_z - coordinate_rim_z + model_rim_z;
          frame_alignment_z = model_rim_z - coordinate_rim_z;
          slot_depth = slot_entry_z - pivot_z;
          ball_radius = ball_diameter / 2
      in case collect
                (\<lambda>(x_sign, y_sign).
                   measure_slot_geometry K hull_mesh
                     (of_int x_sign * frame_spacing) (of_int y_sign * pivot_y)
                     seat_z_model entry_z_model ball_radius thresholds)
                slot_signs of
           Inl e \<Rightarrow> Inl e
         | Inr slot_results \<Rightarrow>
        (case analyze_frame_fit K hull_mesh frame_mesh frame_spacing frame_alignment_z
                thresholds of
           Inl e \<Rightarrow> Inl e
         | Inr frame_results \<Rightarrow>
          (let overall_min_gap =
                 (if frame_results \<noteq> [] then Some (Min (set (map min_gap_mm frame_results)))
                  else None);
               floor_values =
                 List.map_filter placement_floor_clearance_min_mm frame_results;
               overall_floor_clearance_min =
                 (if floor_values \<noteq> [] then Some (Min (set floor_values)) else None);
               slot_axis_pass = list_all axis_pass slot_results;
               slot_corridor_pass = list_all corridor_pass slot_results;
               slot_depth_pass =
                 (\<bar>slot_depth - slot_depth_target_mm thresholds\<bar>
                    \<le> slot_depth_tolerance_mm thresholds);
               frame_interference_pass = list_all interference_pass frame_results;
               frame_floor_pass = list_all floor_clearance_pass frame_results;
               gates =
                 [(''hull_mesh_watertight'', is_watertight hull_mesh),
                  (''reference_constants_locked'', reference_constants_locked),
                  (''slot_axis_positions'', slot_axis_pass),
                  (''slot_depth'', slot_depth_pass),
                  (''slot_insertion_corridor'', slot_corridor_pass),
                  (''frame_interference'', frame_interference_pass),
                  (''frame_floor_clearance'', frame_floor_pass)];
               measurements =
                 \<lparr>seat_z_model_mm = seat_z_model,
                  entry_z_model_mm = entry_z_model,
                  frame_alignment_z_mm = frame_alignment_z,
                  slot_depth_mm = slot_depth,
                  slot_diameter_mm = slot_diameter,
                  ball_diameter_mm = ball_diameter,
                  slot_radial_clearance_target_mm = (slot_diameter - ball_diameter) / 2,
                  slot_checks = slot_results,
                  frame_checks = frame_results,
                  overall_min_frame_gap_mm = overall_min_gap,
                  overall_floor_clearance_min_mm = overall_floor_clearance_min,
                  hull_mesh_faces = length (faces hull_mesh),
                  frame_mesh_faces = length (faces frame_mesh),
                  slot_plug_mesh_faces = length (faces slot_plug_mesh),
                  slot_plug_mesh_watertight = is_watertight slot_plug_mesh\<rparr>
           in Inr \<lparr>fit_measurements = measurements,
                   fit_gates = gates,
                   fit_pass = list_all snd gates\<rparr>)))))))))))"

section \<open>JSON values and Python conversions (validate\_full.py)\<close>

text \<open>
  Reports and configuration are JSON documents, held in Python as nested dicts, lists,
  numbers, strings, booleans and \<^verbatim>\<open>None\<close>. A dict is an association list in insertion
  order; lookups take the first binding of a key.
\<close>

datatype json =
    JNull
  | JBool bool
  | JNum real
  | JStr string
  | JList "json list"
  | JDict "(string \<times> json) list"

text \<open>\<^verbatim>\<open>d.get(key, default)\<close> on a dict.\<close>

definition dict_get :: "(string \<times> json) list \<Rightarrow> string \<Rightarrow> json \<Rightarrow> json" where
  "dict_get d k dflt = (case map_of d k of None \<Rightarrow> dflt | Some v \<Rightarrow> v)"

text \<open>Python truthiness, as \<^verbatim>\<open>bool(v)\<close> and \<^verbatim>\<open>and\<close> read a value.\<close>

fun truthy :: "json \<Rightarrow> bool" where
  "truthy JNull = False"
| "truthy (JBool b) = b"
| "truthy (JNum x) = (x \<noteq> 0)"
| "truthy (JStr s) = (s \<noteq> [])"
| "truthy (JList l) = (l \<noteq> [])"
| "truthy (JDict d) = (d \<noteq> [])"

text \<open>
  \<^verbatim>\<open>float(v)\<close> where the caller catches TypeError and ValueError: \<open>None\<close> stands for
  either exception. Parsing a string is Python's own; \<open>parse\<close> is that function, a
  parameter of the model.
\<close>

definition py_float :: "(string \<Rightarrow> real option) \<Rightarrow> json \<Rightarrow> real option" where
  "py_float parse v =
     (case v of
        JNum x \<Rightarrow> Some x
      | JBool b \<Rightarrow> Some (if b then 1 else 0)
      | JStr s \<Rightarrow> parse s
      | _ \<Rightarrow> None)"

text \<open>
  The values \<^verbatim>\<open>metric_min\<close> and \<^verbatim>\<open>metric_max\<close> collect: for each dict item of a list,
  \<^verbatim>\<open>float(item[key])\<close>, skipping items that are not dicts, lack the key or do not convert.
\<close>

definition metric_values :: "(string \<Rightarrow> real option) \<Rightarrow> json \<Rightarrow> string \<Rightarrow> real list" where
  "metric_values parse items key =
     (case items of
        JList l \<Rightarrow>
          List.map_filter
            (\<lambda>item. case item of
                       JDict d \<Rightarrow> (case map_of d key of None \<Rightarrow> None | Some v \<Rightarrow> py_float parse v)
                     | _ \<Rightarrow> None)
            l
      | _ \<Rightarrow> [])"

definition metric_min :: "(string \<Rightarrow> real option) \<Rightarrow> json \<Rightarrow> string \<Rightarrow> real option" where
  "metric_min parse items key =
     (let values = metric_values parse items key
      in if values = [] then None else Some (Min (set values)))"

definition metric_max :: "(string \<Rightarrow> real option) \<Rightarrow> json \<Rightarrow> string \<Rightarrow> real option" where
  "metric_max parse items key =
     (let values = metric_values parse items key
      in if values = [] then None else Some (Max (set values)))"

section \<open>Robustness sweep (validate\_full.py)\<close>

text \<open>
  A recorded scenario. Paths, command records and export records are carried by the
  Python dict but read by no gate; they are left out. \<open>perturbation_overrides\<close> is \<open>None\<close>
  for a baseline scenario, which has no such key.
\<close>

record key_measurements =
  km_corridor_min_radial_clearance_mm :: "real option"
  km_frame_min_gap_mm :: "real option"
  km_frame_max_penetration_mm :: "real option"
  km_overall_floor_clearance_min_mm :: json

record scenario =
  scenario_name :: string
  report_present :: bool
  report_pass :: bool
  scenario_gates :: "(string \<times> json) list"
  scenario_key_measurements :: "key_measurements option"
  required_gate_pass :: bool
  perturbation_overrides :: "(string \<times> json) list option"

text \<open>
  \<^verbatim>\<open>reference_fit_scenario_summary\<close>. \<open>report\<close> is what \<^verbatim>\<open>load_json\<close> returned: a dict or
  \<^verbatim>\<open>None\<close>. When the report's \<^verbatim>\<open>measurements\<close> value is not a dict, \<^verbatim>\<open>measurements.get\<close>
  raises AttributeError.
\<close>

definition reference_fit_scenario_summary ::
  "(string \<Rightarrow> real option) \<Rightarrow> string \<Rightarrow> (string \<times> json) list option \<Rightarrow> py_error + scenario" where
  "reference_fit_scenario_summary parse name report =
     (let gates = (case report of Some d \<Rightarrow> dict_get d ''gates'' (JDict []) | None \<Rightarrow> JDict []);
          measurements =
            (case report of Some d \<Rightarrow> dict_get d ''measurements'' (JDict []) | None \<Rightarrow> JDict [])
      in case measurements of
           JDict m \<Rightarrow>
             (let slot_checks_v = dict_get m ''slot_checks'' (JList []);
                  frame_checks_v = dict_get m ''frame_checks'' (JList []);
                  gates_dict = (case gates of JDict g \<Rightarrow> g | _ \<Rightarrow> [])
              in Inr \<lparr>scenario_name = name,
                      report_present = (report \<noteq> None),
                      report_pass =
                        (case report of Some d \<Rightarrow> truthy (dict_get d ''pass'' JNull) | None \<Rightarrow> False),
                      scenario_gates = gates_dict,
                      scenario_key_measurements =
                        Some \<lparr>km_corridor_min_radial_clearance_mm =
                                 metric_min parse slot_checks_v ''corridor_min_radial_clearance_mm'',
                               km_frame_min_gap_mm = metric_min parse frame_checks_v ''min_gap_mm'',
                               km_frame_max_penetration_mm =
                                 metric_max parse frame_checks_v ''max_penetration_mm'',
                               km_overall_floor_clearance_min_mm =
                                 dict_get m ''overall_floor_clearance_min_mm'' JNull\<rparr>,
                      required_gate_pass =
                        (truthy (dict_get gates_dict ''slot_insertion_corridor'' JNull)
                         \<and> truthy (dict_get gates_dict ''frame_interference'' JNull)
                         \<and> truthy (dict_get gates_dict ''frame_floor_clearance'' JNull)),
                      perturbation_overrides = None\<rparr>)
         | _ \<Rightarrow> Inl AttributeError)"

text \<open>
  The scenario the sweep records for a perturbation it could not run (static STL inputs
  unavailable, or the perturbed hull export failed): no report, no gates.
\<close>

definition skipped_scenario :: "string \<Rightarrow> (string \<times> json) list \<Rightarrow> scenario" where
  "skipped_scenario name overrides =
     \<lparr>scenario_name = name,
      report_present = False,
      report_pass = False,
      scenario_gates = [],
      scenario_key_measurements = None,
      required_gate_pass = False,
      perturbation_overrides = Some overrides\<rparr>"

text \<open>
  The files the sweep touches, by role, and the outside world it runs against. The file
  system and the external programs are not code of this repository:
  \<^item> \<open>path_exists\<close> is \<^verbatim>\<open>Path.exists\<close>;
  \<^item> \<open>run_openscad_export env out\<close> is the \<^verbatim>\<open>pass\<close> field of the record
    \<^verbatim>\<open>run_openscad_export\<close> returns when asked to render \<open>out\<close>;
  \<^item> \<open>run_reference_fit_command env output_json inputs\<close> is the report that
    \<^verbatim>\<open>run_reference_fit_command\<close> returns (the fit verifier run as a subprocess, its JSON
    report loaded back: a dict or \<^verbatim>\<open>None\<close>);
  \<^item> \<open>parse_float\<close> is \<^verbatim>\<open>float\<close> on a string.
  The world is read as one snapshot: a call repeated with equal arguments has equal
  outcomes. A run in which the file system or a subprocess raises (a render that times
  out, a wrapper that cannot be written) ends without a report and is not a value of this
  model.
\<close>

datatype sweep_path =
    FrameReference
  | SlotPlugReference
  | PresetFile string
  | CachedFrameStl
  | CachedSlotPlugStl
  | CachedHullStl string
  | SweepReport string
  | OtherPath string

datatype fit_inputs =
    FromPreset string
  | FromStls sweep_path sweep_path sweep_path

record sweep_env =
  path_exists :: "sweep_path \<Rightarrow> bool"
  run_openscad_export :: "sweep_path \<Rightarrow> bool"
  run_reference_fit_command :: "sweep_path \<Rightarrow> fit_inputs \<Rightarrow> (string \<times> json) list option"
  parse_float :: "string \<Rightarrow> real option"

text \<open>
  \<^verbatim>\<open>cached_openscad_export\<close>, reduced to the \<^verbatim>\<open>pass\<close> field of its record: a cache hit
  passes, otherwise the export decides.
\<close>

definition cached_openscad_export :: "sweep_env \<Rightarrow> sweep_path \<Rightarrow> bool" where
  "cached_openscad_export env output_file =
     (if path_exists env output_file then True else run_openscad_export env output_file)"

text \<open>
  The first part of \<^verbatim>\<open>robustness_sweep\<close>: exporting (or reusing) the static frame and
  slot-plug STLs, then falling back to the paths of the baseline report. It yields the
  error list so far and the two static paths.
\<close>

definition sweep_static_stls ::
  "sweep_env \<Rightarrow> string option \<Rightarrow> (string \<times> json) list option
    \<Rightarrow> string list \<times> sweep_path option \<times> sweep_path option" where
  "sweep_static_stls env openscad_bin baseline_reference_report =
     (let (errors, base_frame_stl, base_slot_plug_stl) =
            (if openscad_bin \<noteq> None then
               (let missing_reference_sources =
                      filter (\<lambda>p. \<not> path_exists env p) [FrameReference, SlotPlugReference]
                in if missing_reference_sources \<noteq> []
                   then ([''Sweep cache source file(s) missing''], None, None)
                   else
                     (let frame_export = cached_openscad_export env CachedFrameStl;
                          slot_plug_export = cached_openscad_export env CachedSlotPlugStl
                      in if frame_export \<and> slot_plug_export
                         then ([], Some CachedFrameStl, Some CachedSlotPlugStl)
                         else ([''Unable to export/reuse cached frame and slot-plug STLs for sweep scenarios.''],
                               None, None)))
             else ([''OpenSCAD binary unavailable; perturbation sweep could not run.''], None, None))
      in if (base_frame_stl = None \<or> base_slot_plug_stl = None)
            \<and> baseline_reference_report \<noteq> None
         then
           (case dict_get (the baseline_reference_report) ''inputs'' (JDict []) of
              JDict inputs \<Rightarrow>
                (let frame_path = dict_get inputs ''frame_stl'' JNull;
                     plug_path = dict_get inputs ''slot_plug_stl'' JNull;
                     base_frame_stl' =
                       (case frame_path of
                          JStr f \<Rightarrow> (if path_exists env (OtherPath f) then Some (OtherPath f)
                                     else base_frame_stl)
                        | _ \<Rightarrow> base_frame_stl);
                     base_slot_plug_stl' =
                       (case plug_path of
                          JStr f \<Rightarrow> (if path_exists env (OtherPath f) then Some (OtherPath f)
                                     else base_slot_plug_stl)
                        | _ \<Rightarrow> base_slot_plug_stl)
                 in (errors, base_frame_stl', base_slot_plug_stl'))
            | _ \<Rightarrow> (errors, base_frame_stl, base_slot_plug_stl))
         else (errors, base_frame_stl, base_slot_plug_stl))"

text \<open>The body of the perturbation loop for one \<open>(perturb_name, overrides)\<close>.\<close>

definition sweep_perturbation ::
  "sweep_env \<Rightarrow> string option \<Rightarrow> sweep_path option \<Rightarrow> sweep_path option \<Rightarrow> string
    \<Rightarrow> string \<times> (string \<times> json) list \<Rightarrow> py_error + scenario" where
  "sweep_perturbation env openscad_bin base_frame_stl base_slot_plug_stl preset perturbation =
     (let perturb_name = fst perturbation;
          overrides = snd perturbation;
          scenario_slug = preset @ ''__'' @ perturb_name;
          name = preset @ '':perturb:'' @ perturb_name;
          report_path = SweepReport scenario_slug;
          hull_stl = CachedHullStl scenario_slug
      in if openscad_bin = None \<or> base_frame_stl = None \<or> base_slot_plug_stl = None
         then Inr (skipped_scenario name overrides)
         else if \<not> cached_openscad_export env hull_stl
         then Inr (skipped_scenario name overrides)
         else
           (case reference_fit_scenario_summary (parse_float env) name
                   (run_reference_fit_command env report_path
                      (FromStls hull_stl (the base_frame_stl) (the base_slot_plug_stl))) of
              Inl e \<Rightarrow> Inl e
            | Inr sc \<Rightarrow> Inr (sc\<lparr>perturbation_overrides := Some overrides\<rparr>)))"

text \<open>
  The preset loop, with the loop state \<open>(scenarios, errors)\<close>. A preset whose file is
  missing adds an error and no scenario; otherwise the baseline scenario is recorded,
  then one scenario per perturbation.
\<close>

fun sweep_presets_loop ::
  "sweep_env \<Rightarrow> string option \<Rightarrow> sweep_path option \<Rightarrow> sweep_path option
    \<Rightarrow> (string \<times> (string \<times> json) list) list \<Rightarrow> string list
    \<Rightarrow> scenario list \<Rightarrow> string list \<Rightarrow> py_error + (scenario list \<times> string list)" where
  "sweep_presets_loop env openscad_bin base_frame_stl base_slot_plug_stl perturbations []
      scenarios errors = Inr (scenarios, errors)"
| "sweep_presets_loop env openscad_bin base_frame_stl base_slot_plug_stl perturbations
      (preset # rest) scenarios errors =
     (if \<not> path_exists env (PresetFile preset)
      then sweep_presets_loop env openscad_bin base_frame_stl base_slot_plug_stl perturbations
             rest scenarios (errors @ [''Preset missing for sweep scenario generation: '' @ preset])
      else
        (let baseline_report_path = SweepReport preset;
             baseline_hull_stl = CachedHullStl (preset @ ''__baseline'');
             report =
               (if openscad_bin \<noteq> None \<and> base_frame_stl \<noteq> None \<and> base_slot_plug_stl \<noteq> None
                then
                  (if cached_openscad_export env baseline_hull_stl
                   then run_reference_fit_command env baseline_report_path
                          (FromStls baseline_hull_stl (the base_frame_stl) (the base_slot_plug_stl))
                   else None)
                else run_reference_fit_command env baseline_report_path (FromPreset preset))
         in case reference_fit_scenario_summary (parse_float env) (preset @ '':baseline'') report of
              Inl e \<Rightarrow> Inl e
            | Inr baseline_scenario \<Rightarrow>
                (case collect
                        (sweep_perturbation env openscad_bin base_frame_stl base_slot_plug_stl preset)
                        perturbations of
                   Inl e \<Rightarrow> Inl e
                 | Inr perturbed \<Rightarrow>
                     sweep_presets_loop env openscad_bin base_frame_stl base_slot_plug_stl
                       perturbations rest (scenarios @ [baseline_scenario] @ perturbed) errors)))"

record sweep_result =
  sweep_scenarios :: "scenario list"
  scenario_count :: nat
  sweep_pass :: bool
  sweep_errors :: "string list"

definition robustness_sweep ::
  "sweep_env \<Rightarrow> string option \<Rightarrow> (string \<times> json) list option \<Rightarrow> string list
    \<Rightarrow> (string \<times> (string \<times> json) list) list \<Rightarrow> py_error + sweep_result" where
  "robustness_sweep env openscad_bin baseline_reference_report sweep_presets perturbations =
     (let (errors0, base_frame_stl, base_slot_plug_stl) =
            sweep_static_stls env openscad_bin baseline_reference_report
      in case sweep_presets_loop env openscad_bin base_frame_stl base_slot_plug_stl perturbations
                sweep_presets [] errors0 of
           Inl e \<Rightarrow> Inl e
         | Inr (scenarios, errors) \<Rightarrow>
             (let overall_pass =
                    (scenarios \<noteq> [] \<and> list_all required_gate_pass scenarios \<and> errors = [])
              in Inr \<lparr>sweep_scenarios = scenarios,
                      scenario_count = length scenarios,
                      sweep_pass = overall_pass,
                      sweep_errors = errors\<rparr>))"

section \<open>Kinematic swing path (validate\_full.py)\<close>

text \<open>
  \<^verbatim>\<open>sampled_angles\<close>. With a positive step the range is put in order, the grid
  \<open>lo + step * i\<close> is laid from the lower end, the upper end is appended when the last grid
  value lies more than 1e-9 below it, and every value is rounded to six decimals.
\<close>

definition sampled_angles :: "real \<Rightarrow> real \<Rightarrow> real \<Rightarrow> real list" where
  "sampled_angles min_deg max_deg step_deg =
     (if step_deg \<le> 0 then (if min_deg \<noteq> max_deg then [min_deg, max_deg] else [min_deg])
      else
        (let lo = (if max_deg < min_deg then max_deg else min_deg);
             hi = (if max_deg < min_deg then min_deg else max_deg);
             count = \<lfloor>(hi - lo) / step_deg\<rfloor> + 1;
             values = map (\<lambda>i. lo + step_deg * of_nat i) [0 ..< nat count];
             values' = (if values = [] \<or> last values < hi - 1 / 1000000000
                        then values @ [hi] else values)
         in map round6 values'))"

text \<open>
  \<^verbatim>\<open>trimesh.transform_points\<close> under \<^verbatim>\<open>rotation_matrix(angle, [0, 1, 0], origin)\<close>: the
  rotation by \<open>angle\<close> radians about the axis through \<open>origin\<close> along \<open>y\<close>.
\<close>

definition rotate_about_y :: "real \<Rightarrow> point \<Rightarrow> point \<Rightarrow> point" where
  "rotate_about_y angle origin p =
     (px origin + (px p - px origin) * cos angle + (pz p - pz origin) * sin angle,
      py p,
      pz origin - (px p - px origin) * sin angle + (pz p - pz origin) * cos angle)"

definition radians :: "real \<Rightarrow> real" where
  "radians deg = deg * pi / 180"

record angle_result =
  angle_deg :: real
  angle_max_penetration_mm :: real
  angle_min_gap_mm :: real
  angle_pass :: bool

text \<open>
  The body of the angle loop of \<^verbatim>\<open>dynamic_kinematic_validation\<close> for one placement
  (\<open>neutral\<close> are its sample points at rest) and one angle.
\<close>

definition angle_check ::
  "geometry_kernel \<Rightarrow> mesh \<Rightarrow> point list \<Rightarrow> real \<Rightarrow> real \<Rightarrow> real \<Rightarrow> real \<Rightarrow> real
    \<Rightarrow> py_error + angle_result" where
  "angle_check K hull_mesh neutral x_offset seat_z_model penetration_tol min_gap_tol angle =
     (let posed = map (rotate_about_y (radians angle) (x_offset, 0, seat_z_model)) neutral;
          signed = map (signed_distance K hull_mesh) posed
      in case np_max signed of
           Inl e \<Rightarrow> Inl e
         | Inr max_signed \<Rightarrow>
             (let max_penetration = max 0 max_signed;
                  non_penetrating = filter (\<lambda>d. d \<le> 0) signed;
                  min_gap = (if non_penetrating \<noteq> []
                             then Min (set (map uminus non_penetrating)) else 0);
                  passed = (max_penetration \<le> penetration_tol \<and> min_gap \<ge> min_gap_tol)
              in Inr \<lparr>angle_deg = angle,
                      angle_max_penetration_mm = max_penetration,
                      angle_min_gap_mm = min_gap,
                      angle_pass = passed\<rparr>))"

record kinematic_placement =
  kin_placement_x_mm :: real
  kin_angles :: "angle_result list"
  kin_placement_pass :: bool

record kinematic_result =
  kin_pass :: bool
  kin_error :: "string option"
  kin_placements :: "kinematic_placement list"
  kin_sample_count :: nat

text \<open>
  The body of the placement loop, for one \<open>x_sign\<close>. The flags \<^verbatim>\<open>placement_pass\<close> and
  \<^verbatim>\<open>overall_pass\<close>, cleared at the first failing angle, are the conjunctions over the
  angle results. The report's echo of the angle range and thresholds is left out.
\<close>

definition kinematic_placement_check ::
  "geometry_kernel \<Rightarrow> mesh \<Rightarrow> point list \<Rightarrow> real \<Rightarrow> real \<Rightarrow> real \<Rightarrow> real \<Rightarrow> real
    \<Rightarrow> real list \<Rightarrow> int \<Rightarrow> py_error + kinematic_placement" where
  "kinematic_placement_check K hull_mesh frame_samples frame_spacing seat_z_model
      frame_alignment_z penetration_tol min_gap_tol angles x_sign =
     (let x_offset = of_int x_sign * frame_spacing;
          neutral = map (translate (x_offset, 0, frame_alignment_z)) frame_samples
      in case collect
                (angle_check K hull_mesh neutral x_offset seat_z_model penetration_tol min_gap_tol)
                angles of
           Inl e \<Rightarrow> Inl e
         | Inr angle_results \<Rightarrow>
             Inr \<lparr>kin_placement_x_mm = x_offset,
                  kin_angles = angle_results,
                  kin_placement_pass = list_all angle_pass angle_results\<rparr>)"

text \<open>
  \<^verbatim>\<open>report[section][key]\<close> converted by \<^verbatim>\<open>float\<close>, inside a \<^verbatim>\<open>try\<close> that catches KeyError,
  TypeError and ValueError: \<open>None\<close> stands for any of them.
\<close>

definition section_float :: "(string \<Rightarrow> real option) \<Rightarrow> json \<Rightarrow> string \<Rightarrow> real option" where
  "section_float parse sect key =
     (case sect of
        JDict d \<Rightarrow> (case map_of d key of None \<Rightarrow> None | Some v \<Rightarrow> py_float parse v)
      | _ \<Rightarrow> None)"

definition kinematic_failure :: "string \<Rightarrow> kinematic_result" where
  "kinematic_failure msg =
     \<lparr>kin_pass = False, kin_error = Some msg, kin_placements = [], kin_sample_count = 0\<rparr>"

text \<open>
  \<^verbatim>\<open>inputs[key]\<close> as a mesh path then \<^verbatim>\<open>load_mesh\<close>: a missing key raises KeyError and a
  value that is not a string raises TypeError in \<^verbatim>\<open>Path\<close>. \<open>load\<close> is \<^verbatim>\<open>load_mesh\<close> on a
  path, which reads the file system.
\<close>

definition load_input_mesh ::
  "(string \<Rightarrow> py_error + mesh) \<Rightarrow> (string \<times> json) list \<Rightarrow> string \<Rightarrow> py_error + mesh" where
  "load_input_mesh load inputs key =
     (case map_of inputs key of
        None \<Rightarrow> Inl (KeyError key)
      | Some (JStr path) \<Rightarrow> load path
      | Some _ \<Rightarrow> Inl TypeError)"

text \<open>The exceptions the mesh loading \<^verbatim>\<open>try\<close> of the kinematic validation catches.\<close>

fun kinematic_load_caught :: "py_error \<Rightarrow> bool" where
  "kinematic_load_caught (KeyError k) = True"
| "kinematic_load_caught OSError = True"
| "kinematic_load_caught ValueError = True"
| "kinematic_load_caught TypeError = True"
| "kinematic_load_caught e = False"

definition dynamic_kinematic_validation ::
  "geometry_kernel \<Rightarrow> (string \<Rightarrow> py_error + mesh) \<Rightarrow> (string \<Rightarrow> real option)
    \<Rightarrow> (string \<times> json) list option \<Rightarrow> real \<Rightarrow> real \<Rightarrow> real \<Rightarrow> py_error + kinematic_result" where
  "dynamic_kinematic_validation K load parse baseline_reference_report
      angle_min_deg angle_max_deg angle_step_deg =
     (case baseline_reference_report of
        None \<Rightarrow>
          Inr (kinematic_failure
                 ''Baseline reference-fit report is unavailable; cannot run kinematic sweep.'')
      | Some report \<Rightarrow>
          (let inputs = dict_get report ''inputs'' (JDict []);
               thresholds = dict_get report ''thresholds'' (JDict []);
               reference_constants = dict_get report ''reference_constants'' (JDict []);
               measurements = dict_get report ''measurements'' (JDict [])
           in case inputs of
                JDict inputs_d \<Rightarrow>
                  (case load_input_mesh load inputs_d ''hull_stl'' of
                     Inl e \<Rightarrow>
                       (if kinematic_load_caught e
                        then Inr (kinematic_failure ''Failed to load baseline meshes'')
                        else Inl e)
                   | Inr hull_mesh \<Rightarrow>
                  (case load_input_mesh load inputs_d ''frame_stl'' of
                     Inl e \<Rightarrow>
                       (if kinematic_load_caught e
                        then Inr (kinematic_failure ''Failed to load baseline meshes'')
                        else Inl e)
                   | Inr frame_mesh \<Rightarrow>
                  (case (section_float parse reference_constants ''REFERENCE_FRAME_SPACING'',
                         section_float parse measurements ''seat_z_model_mm'',
                         section_float parse measurements ''frame_alignment_z_mm'',
                         section_float parse thresholds ''frame_penetration_max_mm'',
                         section_float parse thresholds ''frame_min_gap_mm'') of
                     (Some frame_spacing, Some seat_z_model, Some frame_alignment_z,
                      Some penetration_tol, Some min_gap_tol) \<Rightarrow>
                       (let angles = sampled_angles angle_min_deg angle_max_deg angle_step_deg;
                            frame_samples = vertices frame_mesh @ triangles_center frame_mesh
                        in case collect
                                  (kinematic_placement_check K hull_mesh frame_samples frame_spacing
                                     seat_z_model frame_alignment_z penetration_tol min_gap_tol angles)
                                  [- 1, 1] of
                             Inl e \<Rightarrow> Inl e
                           | Inr placements \<Rightarrow>
                               Inr \<lparr>kin_pass = list_all kin_placement_pass placements,
                                    kin_error = None,
                                    kin_placements = placements,
                                    kin_sample_count = length angles\<rparr>)
                   | _ \<Rightarrow>
                       Inr (kinematic_failure
                              ''Baseline reference-fit report missing required scalar values''))))
              | _ \<Rightarrow> Inr (kinematic_failure ''Baseline reference-fit report missing inputs.'')))"

section \<open>Manufacturability (validate\_full.py)\<close>

text \<open>
  The values \<^verbatim>\<open>parse_preset_parameters\<close> yields: \<^verbatim>\<open>parse_scad_value\<close> returns booleans
  and numbers only.
\<close>

datatype scad_value = SBool bool | SNum real

definition get_float :: "(string \<rightharpoonup> scad_value) \<Rightarrow> string \<Rightarrow> real \<Rightarrow> real" where
  "get_float params name fallback =
     (case params name of
        None \<Rightarrow> fallback
      | Some (SNum x) \<Rightarrow> x
      | Some (SBool b) \<Rightarrow> (if b then 1 else 0))"

definition get_bool :: "(string \<rightharpoonup> scad_value) \<Rightarrow> string \<Rightarrow> bool \<Rightarrow> bool" where
  "get_bool params name fallback =
     (case params name of
        None \<Rightarrow> fallback
      | Some (SBool b) \<Rightarrow> b
      | Some (SNum x) \<Rightarrow> x \<noteq> 0)"

text \<open>\<^verbatim>\<open>x or d\<close> on floats: \<open>d\<close> when \<open>x\<close> is zero.\<close>

definition or_else :: "real \<Rightarrow> real \<Rightarrow> real" where
  "or_else x d = (if x = 0 then d else x)"

text \<open>
  \<^verbatim>\<open>convex_hull_2d\<close>: Andrew's monotone chain over the sorted distinct points. A chain
  is kept with its last point first; \<open>chain_pop\<close> is the \<^verbatim>\<open>while\<close> loop that pops while
  the last two points and \<open>p\<close> do not turn left.
\<close>

type_synonym point2 = "real \<times> real"

definition cross2 :: "point2 \<Rightarrow> point2 \<Rightarrow> point2 \<Rightarrow> real" where
  "cross2 o' a b = (fst a - fst o') * (snd b - snd o') - (snd a - snd o') * (fst b - fst o')"

fun chain_pop :: "point2 list \<Rightarrow> point2 \<Rightarrow> point2 list" where
  "chain_pop (b # a # rest) p =
     (if cross2 a b p \<le> 0 then chain_pop (a # rest) p else b # a # rest)"
| "chain_pop chain p = chain"

definition half_hull :: "point2 list \<Rightarrow> point2 list" where
  "half_hull pts = rev (foldl (\<lambda>chain p. p # chain_pop chain p) [] pts)"

definition convex_hull_2d :: "point2 list \<Rightarrow> point2 list" where
  "convex_hull_2d points =
     (if length points \<le> 1 then points
      else
        (let pts = sort (remdups points)
         in if length pts \<le> 1 then pts
            else butlast (half_hull pts) @ butlast (half_hull (rev pts))))"

text \<open>\<^verbatim>\<open>polygon_area\<close>: the shoelace formula; \<^verbatim>\<open>np.roll(v, -1)\<close> is \<open>rotate1\<close>.\<close>

definition dot :: "real list \<Rightarrow> real list \<Rightarrow> real" where
  "dot xs ys = sum_list (map2 (*) xs ys)"

definition polygon_area :: "point2 list \<Rightarrow> real" where
  "polygon_area points =
     (if length points < 3 then 0
      else
        (let x = map fst points; y = map snd points
         in (1 / 2) * \<bar>dot x (rotate1 y) - dot y (rotate1 x)\<bar>))"

record manufacturability_args =
  min_wall_thickness_mm :: real
  min_recess_skin_mm :: real
  max_risky_overhang_ratio :: real
  max_overhang_from_horizontal_deg :: real
  contact_z_tolerance_mm :: real
  min_contact_area_mm2 :: real
  min_contact_span_x_mm :: real
  min_contact_span_y_mm :: real

text \<open>
  What the gate reads of the summary \<^verbatim>\<open>sample_local_thickness_probes\<close> returns: its
  \<^verbatim>\<open>status\<close> and its \<^verbatim>\<open>percentile_mm\<close> (\<open>JNull\<close> when the key is absent). The probing
  itself runs trimesh's thickness queries and numpy's percentile.
\<close>

record probe_summary =
  probe_status :: string
  probe_percentile_mm :: json

text \<open>
  The outside world of the manufacturability check: whether the preset file of the
  report's preset exists, the parameters \<^verbatim>\<open>parse_preset_parameters\<close> reads from it,
  \<^verbatim>\<open>load_mesh\<close>, and the thickness probing of a mesh under this run's probe arguments.
\<close>

record manufacturability_env =
  preset_exists :: "json \<Rightarrow> bool"
  parse_preset_parameters :: "json \<Rightarrow> (string \<rightharpoonup> scad_value)"
  load_hull_mesh :: "string \<Rightarrow> py_error + mesh"
  sample_local_thickness_probes :: "mesh \<Rightarrow> probe_summary"

record manufacturability_measurements =
  min_wall_thickness_measured_mm :: real
  foot_recess_skin_estimated_mm :: real
  downward_area_mm2 :: real
  risky_overhang_area_mm2 :: real
  risky_overhang_ratio :: real
  contact_area_mm2 :: real
  contact_span_x_mm :: real
  contact_span_y_mm :: real
  contact_point_count :: nat

record manufacturability_result =
  man_pass :: bool
  man_error :: "string option"
  man_gates :: "(string \<times> bool) list"
  man_measurements :: "manufacturability_measurements option"

definition manufacturability_failure :: "string \<Rightarrow> manufacturability_result" where
  "manufacturability_failure msg =
     \<lparr>man_pass = False, man_error = Some msg, man_gates = [], man_measurements = None\<rparr>"

text \<open>
  The gate on the sampled local thickness: status \<^verbatim>\<open>ok\<close>, a numeric percentile
  (\<^verbatim>\<open>isinstance(v, (int, float))\<close> also accepts a bool), and the percentile at least the
  minimum wall thickness.
\<close>

definition sampled_local_wall_gate :: "probe_summary \<Rightarrow> real \<Rightarrow> bool" where
  "sampled_local_wall_gate probes min_wall =
     (probe_status probes = ''ok''
      \<and> (case probe_percentile_mm probes of
            JNum x \<Rightarrow> x \<ge> min_wall
          | JBool b \<Rightarrow> (if b then 1 else 0) \<ge> min_wall
          | _ \<Rightarrow> False))"

text \<open>
  The part of \<^verbatim>\<open>manufacturability_validation\<close> after the hull mesh is loaded. The
  masks index \<^verbatim>\<open>face_normals\<close> and \<^verbatim>\<open>area_faces\<close> face by face (trimesh keeps them the
  same length); \<^verbatim>\<open>np.min\<close> over the vertex heights raises on a mesh without vertices.
\<close>

definition manufacturability_gates ::
  "manufacturability_args \<Rightarrow> (string \<rightharpoonup> scad_value) \<Rightarrow> probe_summary \<Rightarrow> mesh
    \<Rightarrow> py_error + manufacturability_result" where
  "manufacturability_gates args params local_thickness_probes hull_mesh =
     (let wall_mm = or_else (get_float params ''wall_mm'' 0) 0;
          wall_end_ratio = or_else (get_float params ''wall_end_taper_ratio'' 1) 1;
          floor_mm = or_else (get_float params ''floor_mm'' 0) 0;
          slot_outer_skin_min_mm = or_else (get_float params ''slot_outer_skin_min_mm'' 0) 0;
          slot_skin_mm = or_else (get_float params ''slot_skin_mm'' 0) 0;
          feet_on = get_bool params ''feet_on'' True;
          foot_recess_depth_mm = or_else (get_float params ''foot_recess_depth_mm'' 0) 0;
          foot_recess_skin_mm = or_else (get_float params ''foot_recess_skin_mm'' 0) 0;
          estimated_end_wall_mm = wall_mm * wall_end_ratio;
          estimated_recess_skin_mm = (if feet_on then floor_mm - foot_recess_depth_mm else floor_mm);
          min_wall = Min {estimated_end_wall_mm, slot_outer_skin_min_mm, slot_skin_mm};
          sampled_gate = sampled_local_wall_gate local_thickness_probes (min_wall_thickness_mm args);
          faces_na = zip (face_normals hull_mesh) (area_faces hull_mesh);
          overhang_cos = cos (radians (max_overhang_from_horizontal_deg args));
          downward = filter (\<lambda>(n, a). pz n < - (1 / 1000000)) faces_na;
          risky = filter (\<lambda>(n, a). \<bar>pz n\<bar> \<ge> overhang_cos) downward;
          downward_area = sum_list (map snd downward);
          risky_area = sum_list (map snd risky);
          risky_ratio = (if downward_area > 1 / 1000000000 then risky_area / downward_area else 0)
      in case np_min (map pz (vertices hull_mesh)) of
           Inl e \<Rightarrow> Inl e
         | Inr z_min \<Rightarrow>
             (let contact_points =
                    map (\<lambda>v. (px v, py v))
                      (filter (\<lambda>v. pz v \<le> z_min + contact_z_tolerance_mm args) (vertices hull_mesh));
                  contact_hull =
                    (if length contact_points \<ge> 3 then convex_hull_2d contact_points else []);
                  contact_area = polygon_area contact_hull;
                  contact_span_x =
                    (if contact_points \<noteq> []
                     then Max (set (map fst contact_points)) - Min (set (map fst contact_points))
                     else 0);
                  contact_span_y =
                    (if contact_points \<noteq> []
                     then Max (set (map snd contact_points)) - Min (set (map snd contact_points))
                     else 0);
                  gates =
                    [(''minimum_wall_thickness'', min_wall \<ge> min_wall_thickness_mm args),
                     (''sampled_local_wall_thickness'', sampled_gate),
                     (''recess_skin_thickness'',
                        estimated_recess_skin_mm \<ge> min_recess_skin_mm args
                        \<and> estimated_recess_skin_mm \<ge> foot_recess_skin_mm),
                     (''overhang_risk'', risky_ratio \<le> max_risky_overhang_ratio args),
                     (''stable_contact_footprint'',
                        contact_area \<ge> min_contact_area_mm2 args
                        \<and> contact_span_x \<ge> min_contact_span_x_mm args
                        \<and> contact_span_y \<ge> min_contact_span_y_mm args)]
              in Inr \<lparr>man_pass = list_all snd gates,
                      man_error = None,
                      man_gates = gates,
                      man_measurements =
                        Some \<lparr>min_wall_thickness_measured_mm = min_wall,
                               foot_recess_skin_estimated_mm = estimated_recess_skin_mm,
                               downward_area_mm2 = downward_area,
                               risky_overhang_area_mm2 = risky_area,
                               risky_overhang_ratio = risky_ratio,
                               contact_area_mm2 = contact_area,
                               contact_span_x_mm = contact_span_x,
                               contact_span_y_mm = contact_span_y,
                               contact_point_count = length contact_points\<rparr>\<rparr>))"

text \<open>
  \<^verbatim>\<open>manufacturability_validation\<close>: the early returns that fail closed, then the gates.
  Every exception of \<^verbatim>\<open>load_mesh\<close> is caught here.
\<close>

definition manufacturability_validation ::
  "manufacturability_env \<Rightarrow> manufacturability_args \<Rightarrow> (string \<times> json) list option
    \<Rightarrow> py_error + manufacturability_result" where
  "manufacturability_validation env args baseline_reference_report =
     (case baseline_reference_report of
        None \<Rightarrow>
          Inr (manufacturability_failure
                 ''Baseline reference-fit report is unavailable; cannot evaluate manufacturability.'')
      | Some report \<Rightarrow>
          (case dict_get report ''inputs'' (JDict []) of
             JDict inputs \<Rightarrow>
               (let preset = dict_get inputs ''preset'' (JStr ''gcsc_default'')
                in if \<not> preset_exists env preset
                   then Inr (manufacturability_failure
                               ''Preset file not found for manufacturability check'')
                   else
                     (case dict_get inputs ''hull_stl'' JNull of
                        JStr hull_path_raw \<Rightarrow>
                          (case load_hull_mesh env hull_path_raw of
                             Inl e \<Rightarrow>
                               Inr (manufacturability_failure
                                      ''Failed to load hull mesh for manufacturability check'')
                           | Inr hull_mesh \<Rightarrow>
                               manufacturability_gates args (parse_preset_parameters env preset)
                                 (sample_local_thickness_probes env hull_mesh) hull_mesh)
                      | _ \<Rightarrow>
                          Inr (manufacturability_failure
                                 ''Baseline reference-fit report missing inputs.hull_stl.'')))
           | _ \<Rightarrow>
               Inr (manufacturability_failure ''Baseline reference-fit report missing inputs.'')))"

section \<open>Golden geometry signature gate (validate\_full.py)\<close>

text \<open>
  \<^verbatim>\<open>bool_from_env\<close>: the variable's value (empty when unset), stripped of surrounding
  whitespace and lower-cased, is one of \<^verbatim>\<open>1\<close>, \<^verbatim>\<open>true\<close>, \<^verbatim>\<open>yes\<close>, \<^verbatim>\<open>on\<close>. A character
  is a code point below 256. \<^verbatim>\<open>str.strip\<close> removes the characters of \<^verbatim>\<open>str.isspace\<close>: on
  this range the ASCII white space, the separators 28 to 31, NEL (133) and the no-break
  space (160). \<^verbatim>\<open>str.lower\<close> maps A to Z and the capital letters 192 to 222 (but not the
  multiplication sign 215) to the letter 32 code points higher.
\<close>

definition is_space :: "char \<Rightarrow> bool" where
  "is_space c \<longleftrightarrow>
     (let n = (of_char c :: nat)
      in n = 32 \<or> (9 \<le> n \<and> n \<le> 13) \<or> (28 \<le> n \<and> n \<le> 31) \<or> n = 133 \<or> n = 160)"

definition py_strip :: "string \<Rightarrow> string" where
  "py_strip s = rev (dropWhile is_space (rev (dropWhile is_space s)))"

definition lower_char :: "char \<Rightarrow> char" where
  "lower_char c =
     (let n = (of_char c :: nat)
      in if (65 \<le> n \<and> n \<le> 90) \<or> (192 \<le> n \<and> n \<le> 222 \<and> n \<noteq> 215)
         then char_of (n + 32) else c)"

definition py_lower :: "string \<Rightarrow> string" where
  "py_lower s = map lower_char s"

definition bool_from_env :: "string option \<Rightarrow> bool" where
  "bool_from_env var =
     (let raw = py_lower (py_strip (case var of None \<Rightarrow> [] | Some v \<Rightarrow> v))
      in raw \<in> {''1'', ''true'', ''yes'', ''on''})"

record drift_override =
  override_enabled :: bool
  override_source :: string
  override_cli :: bool
  override_env :: bool

text \<open>
  \<^verbatim>\<open>resolve_signature_drift_override\<close>: \<open>allow_signature_drift\<close> is the command line flag,
  \<open>env_var\<close> the value of \<^verbatim>\<open>GCSC_ALLOW_SIGNATURE_DRIFT\<close> (\<open>None\<close> when unset).
\<close>

definition resolve_signature_drift_override :: "bool \<Rightarrow> string option \<Rightarrow> drift_override" where
  "resolve_signature_drift_override allow_signature_drift env_var =
     (let cli_override = allow_signature_drift;
          env_override = bool_from_env env_var;
          allow_drift = (cli_override \<or> env_override);
          source = (if cli_override then ''cli'' else if env_override then ''env'' else ''none'')
      in \<lparr>override_enabled = allow_drift, override_source = source,
          override_cli = cli_override, override_env = env_override\<rparr>)"

datatype drift_status = MissingMetric | InvalidBounds | OutOfBand

text \<open>
  A drift entry. The four numbers are present for an \<^verbatim>\<open>out_of_band\<close> entry only:
  observed value, band minimum, band maximum and the delta to the nearest band edge.
\<close>

record drift =
  drift_preset :: string
  drift_metric :: string
  drift_status :: drift_status
  drift_detail :: "(real \<times> real \<times> real \<times> real) option"

text \<open>
  The body of the loop over the stored metrics of one preset: \<open>None\<close> when the observed
  value lies inside the band, otherwise the drift entry appended.
\<close>

definition metric_drift ::
  "(string \<Rightarrow> real option) \<Rightarrow> string \<Rightarrow> (string \<times> real) list \<Rightarrow> string \<times> json \<Rightarrow> drift option" where
  "metric_drift parse preset observed entry =
     (let metric_name = fst entry; bounds = snd entry
      in case (map_of observed metric_name, bounds) of
           (Some v, JDict b) \<Rightarrow>
             (case (case map_of b ''min'' of None \<Rightarrow> None | Some x \<Rightarrow> py_float parse x,
                    case map_of b ''max'' of None \<Rightarrow> None | Some x \<Rightarrow> py_float parse x) of
                (Some lower, Some upper) \<Rightarrow>
                  (if v < lower \<or> v > upper
                   then Some \<lparr>drift_preset = preset, drift_metric = metric_name,
                               drift_status = OutOfBand,
                               drift_detail =
                                 Some (v, lower, upper, if v < lower then v - lower else v - upper)\<rparr>
                   else None)
              | _ \<Rightarrow>
                  Some \<lparr>drift_preset = preset, drift_metric = metric_name,
                        drift_status = InvalidBounds, drift_detail = None\<rparr>)
         | _ \<Rightarrow>
             Some \<lparr>drift_preset = preset, drift_metric = metric_name,
                   drift_status = MissingMetric, drift_detail = None\<rparr>)"

text \<open>
  The loop over the sweep presets, with the loop state \<open>(missing_presets, drifts)\<close>.
  \<open>observed_by_preset\<close> holds the signature of every preset whose baseline hull could be
  loaded; \<^verbatim>\<open>not observed\<close> is true for a missing or an empty signature.
\<close>

fun signature_presets_loop ::
  "(string \<Rightarrow> real option) \<Rightarrow> (string \<times> (string \<times> real) list) list \<Rightarrow> (string \<times> json) list
    \<Rightarrow> string list \<Rightarrow> string list \<Rightarrow> drift list \<Rightarrow> string list \<times> drift list" where
  "signature_presets_loop parse observed_by_preset expected_presets [] missing_presets drifts =
     (missing_presets, drifts)"
| "signature_presets_loop parse observed_by_preset expected_presets (preset # rest)
      missing_presets drifts =
     (case (map_of observed_by_preset preset, map_of expected_presets preset) of
        (Some observed, Some (JDict expected_entry)) \<Rightarrow>
          (if observed = []
           then signature_presets_loop parse observed_by_preset expected_presets rest
                  (missing_presets @ [preset]) drifts
           else
             (case dict_get expected_entry ''metrics'' (JDict []) of
                JDict metrics \<Rightarrow>
                  signature_presets_loop parse observed_by_preset expected_presets rest
                    missing_presets
                    (drifts @ List.map_filter (metric_drift parse preset observed) metrics)
              | _ \<Rightarrow>
                  signature_presets_loop parse observed_by_preset expected_presets rest
                    (missing_presets @ [preset]) drifts))
      | _ \<Rightarrow>
          signature_presets_loop parse observed_by_preset expected_presets rest
            (missing_presets @ [preset]) drifts)"

record signature_policy =
  policy_override_enabled :: bool
  policy_override_source :: string
  drift_detected :: bool
  missing_presets_detected :: bool
  blocked_without_override :: bool

text \<open>
  The gate's report. \<open>override_used\<close> is \<open>None\<close> on the path that reports no such key
  (signature file missing or invalid), and \<open>sig_error\<close> is set on that path only. The
  echoed inputs (\<^verbatim>\<open>observed\<close>, \<^verbatim>\<open>signature_file\<close>), the constant policy strings and the
  per-preset regrouping of the drifts (\<^verbatim>\<open>drifted_metrics_by_preset\<close>) are left out.
\<close>

record signature_result =
  sig_pass :: bool
  raw_pass :: bool
  allow_drift_override :: bool
  sig_override_source :: string
  override_used :: "bool option"
  sig_error :: "string option"
  sig_drifts :: "drift list"
  missing_presets :: "string list"
  sig_policy :: signature_policy

text \<open>
  \<^verbatim>\<open>golden_signature_validation\<close>, from the observed signatures on. \<open>expected\<close> is what
  \<^verbatim>\<open>load_json(signature_file)\<close> returns after the optional baseline write: a dict, or
  \<^verbatim>\<open>None\<close> for a missing or invalid file.
\<close>

definition golden_signature_validation ::
  "(string \<Rightarrow> real option) \<Rightarrow> bool \<Rightarrow> string option \<Rightarrow> (string \<times> (string \<times> real) list) list
    \<Rightarrow> (string \<times> json) list option \<Rightarrow> string list \<Rightarrow> signature_result" where
  "golden_signature_validation parse allow_signature_drift env_var observed_by_preset expected
      sweep_presets =
     (let override = resolve_signature_drift_override allow_signature_drift env_var;
          allow_drift = override_enabled override
      in case expected of
           None \<Rightarrow>
             \<lparr>sig_pass = False,
              raw_pass = False,
              allow_drift_override = allow_drift,
              sig_override_source = override_source override,
              override_used = None,
              sig_error = Some ''Golden signature file missing or invalid JSON.'',
              sig_drifts = [],
              missing_presets = sweep_presets,
              sig_policy =
                \<lparr>policy_override_enabled = allow_drift,
                 policy_override_source = override_source override,
                 drift_detected = False,
                 missing_presets_detected = (sweep_presets \<noteq> []),
                 blocked_without_override = True\<rparr>\<rparr>
         | Some expected_d \<Rightarrow>
             (let expected_presets =
                    (case dict_get expected_d ''presets'' (JDict []) of JDict e \<Rightarrow> e | _ \<Rightarrow> []);
                  (missing, drifts) =
                    signature_presets_loop parse observed_by_preset expected_presets
                      sweep_presets [] [];
                  raw = (missing = [] \<and> drifts = []);
                  pass_with_override = (raw \<or> allow_drift)
              in \<lparr>sig_pass = pass_with_override,
                  raw_pass = raw,
                  allow_drift_override = allow_drift,
                  sig_override_source = override_source override,
                  override_used = Some (allow_drift \<and> \<not> raw),
                  sig_error = None,
                  sig_drifts = drifts,
                  missing_presets = missing,
                  sig_policy =
                    \<lparr>policy_override_enabled = allow_drift,
                     policy_override_source = override_source override,
                     drift_detected = (drifts \<noteq> []),
                     missing_presets_detected = (missing \<noteq> []),
                     blocked_without_override = (\<not> raw \<and> \<not> allow_drift)\<rparr>\<rparr>))"

section \<open>Vocabulary of the properties and concrete instances\<close>

text \<open>
  A concrete world on which the properties are exercised. The hull is a solid slab
  filling the half space below the plane \<open>z = -50\<close>: \<open>slab_kernel\<close> answers every query
  for that slab, whatever mesh it is handed. The signed distance of a point is positive
  inside the solid and its magnitude is the distance to the plane, and a downward ray from
  above the plane hits it straight below its origin. \<open>unit_mesh\<close> is a mesh of a single
  vertex at height 17, used as the frame.
\<close>

definition slab_kernel :: geometry_kernel where
  "slab_kernel =
     \<lparr>signed_distance = (\<lambda>m p. - 50 - pz p),
      intersects_location =
        (\<lambda>m origin direction. if pz origin > - 50 then [(px origin, py origin, - 50)] else [])\<rparr>"

definition unit_mesh :: mesh where
  "unit_mesh =
     \<lparr>vertices = [(0, 0, 17)], triangles_center = [], faces = [], face_normals = [],
      area_faces = [], is_watertight = True\<rparr>"

text \<open>Thresholds with a one-point scan grid and three corridor samples.\<close>

definition narrow_thresholds :: VerificationThresholds where
  "narrow_thresholds =
     default_thresholds\<lparr>axis_scan_radius_mm := 0, axis_scan_step_mm := 1, corridor_samples := 3\<rparr>"

text \<open>
  The sample points of one placement: every frame vertex and face centroid, translated
  by the placement offset.
\<close>

definition placed_samples :: "mesh \<Rightarrow> real \<Rightarrow> real \<Rightarrow> int \<Rightarrow> point list" where
  "placed_samples frame_mesh frame_spacing frame_alignment_z x_sign =
     map (translate (of_int x_sign * frame_spacing, 0, frame_alignment_z))
       (frame_sample_points frame_mesh)"

text \<open>
  The interference rule of one placement: the check passes exactly when no sample's
  signed distance exceeds the penetration tolerance and the reported gap is at least the
  minimum gap; when some sample does not penetrate (signed distance at most 0), the
  reported gap is the least magnitude of signed distance among the non-penetrating
  samples, and when every sample penetrates it is 0.
\<close>

definition interference_rule ::
  "geometry_kernel \<Rightarrow> mesh \<Rightarrow> VerificationThresholds \<Rightarrow> point list \<Rightarrow> frame_check \<Rightarrow> bool" where
  "interference_rule K hull_mesh th samples r \<longleftrightarrow>
     (interference_pass r \<longleftrightarrow>
        (\<forall>p \<in> set samples. signed_distance K hull_mesh p \<le> frame_penetration_max_mm th)
        \<and> frame_min_gap_mm th \<le> min_gap_mm r)
   \<and> ((\<exists>p \<in> set samples. signed_distance K hull_mesh p \<le> 0) \<longrightarrow>
        min_gap_mm r =
          Min ((\<lambda>p. \<bar>signed_distance K hull_mesh p\<bar>)
                 ` {p \<in> set samples. signed_distance K hull_mesh p \<le> 0}))
   \<and> ((\<forall>p \<in> set samples. 0 < signed_distance K hull_mesh p) \<longrightarrow> min_gap_mm r = 0)"

text \<open>
  The bottom contact points of one placement: the translated frame vertices whose height
  is within the bottom tolerance of the lowest translated vertex.
\<close>

definition placed_bottom_points ::
  "mesh \<Rightarrow> real \<Rightarrow> real \<Rightarrow> VerificationThresholds \<Rightarrow> int \<Rightarrow> point list" where
  "placed_bottom_points frame_mesh frame_spacing frame_alignment_z th x_sign =
     (let frame_vertices =
            map (translate (of_int x_sign * frame_spacing, 0, frame_alignment_z))
              (vertices frame_mesh);
          min_z = Min (set (map pz frame_vertices))
      in filter (\<lambda>v. \<bar>pz v - min_z\<bar> \<le> frame_bottom_z_tolerance_mm th) frame_vertices)"

text \<open>
  The required-gate triple of a scenario's gates: the three named gates are present and
  true, as Python's \<^verbatim>\<open>bool\<close> reads them.
\<close>

definition required_gate_triple :: "(string \<times> json) list \<Rightarrow> bool" where
  "required_gate_triple gates \<longleftrightarrow>
     truthy (dict_get gates ''slot_insertion_corridor'' JNull)
     \<and> truthy (dict_get gates ''frame_interference'' JNull)
     \<and> truthy (dict_get gates ''frame_floor_clearance'' JNull)"

text \<open>
  A world in which every file exists and the fit verifier reports the three required
  gates as passed.
\<close>

definition passing_env :: sweep_env where
  "passing_env =
     \<lparr>path_exists = (\<lambda>p. True),
      run_openscad_export = (\<lambda>p. True),
      run_reference_fit_command =
        (\<lambda>out inputs.
           Some [(''pass'', JBool True),
                 (''gates'',
                    JDict [(''slot_insertion_corridor'', JBool True),
                           (''frame_interference'', JBool True),
                           (''frame_floor_clearance'', JBool True)]),
                 (''measurements'', JDict [])]),
      parse_float = (\<lambda>s. None)\<rparr>"

text \<open>
  A concrete manufacturability run: the thresholds of the repository's own test, a preset
  that declares walls of 1.6, 1.4 and 1.35, a floor of 2 and a foot recess of the given
  depth, thickness probes that report a 1.2 percentile, and a hull reduced to one vertex.
\<close>

definition probe_args :: manufacturability_args where
  "probe_args =
     \<lparr>min_wall_thickness_mm = 1,
      min_recess_skin_mm = 1,
      max_risky_overhang_ratio = 1,
      max_overhang_from_horizontal_deg = 45,
      contact_z_tolerance_mm = 2 / 10,
      min_contact_area_mm2 = 0,
      min_contact_span_x_mm = 0,
      min_contact_span_y_mm = 0\<rparr>"

definition recess_params :: "real \<Rightarrow> (string \<rightharpoonup> scad_value)" where
  "recess_params depth =
     [''wall_mm'' \<mapsto> SNum (16 / 10),
      ''slot_outer_skin_min_mm'' \<mapsto> SNum (14 / 10),
      ''slot_skin_mm'' \<mapsto> SNum (135 / 100),
      ''floor_mm'' \<mapsto> SNum 2,
      ''foot_recess_depth_mm'' \<mapsto> SNum depth]"

definition probe_env :: "real \<Rightarrow> manufacturability_env" where
  "probe_env depth =
     \<lparr>preset_exists = (\<lambda>preset. True),
      parse_preset_parameters = (\<lambda>preset. recess_params depth),
      load_hull_mesh = (\<lambda>path. Inr unit_mesh),
      sample_local_thickness_probes =
        (\<lambda>m. \<lparr>probe_status = ''ok'', probe_percentile_mm = JNum (12 / 10)\<rparr>)\<rparr>"

definition probe_report :: "(string \<times> json) list" where
  "probe_report = [(''inputs'', JDict [(''hull_stl'', JStr ''hull.stl'')])]"

text \<open>
  The same run where the preset file does not exist, and where the hull file does not
  load.
\<close>

definition no_preset_env :: manufacturability_env where
  "no_preset_env = (probe_env (1 / 2))\<lparr>preset_exists := (\<lambda>preset. False)\<rparr>"

definition no_hull_env :: manufacturability_env where
  "no_hull_env = (probe_env (1 / 2))\<lparr>load_hull_mesh := (\<lambda>path. Inl OSError)\<rparr>"

text \<open>
  A manufacturability run that fails closed: it returns a report that carries an error,
  no gates and a false verdict.
\<close>

definition fails_closed :: "py_error + manufacturability_result \<Rightarrow> bool" where
  "fails_closed r =
     (case r of
        Inl e \<Rightarrow> False
      | Inr res \<Rightarrow> man_error res \<noteq> None \<and> man_gates res = [] \<and> \<not> man_pass res)"

text \<open>
  The canonical constants as a resolved constant map, and the map
  \<^verbatim>\<open>parse_reference_constants\<close> resolves when the constants file assigns the pivot height
  the expression \<^verbatim>\<open>1e999 - 1e999\<close>: both literals read as infinity.
\<close>

definition canonical_constants :: "string \<rightharpoonup> pyfloat" where
  "canonical_constants =
     map_of (map (\<lambda>(name, v). (name, Fin v)) CANONICAL_REFERENCE_CONSTANTS)"

definition nan_pivot_constants :: "string \<rightharpoonup> pyfloat" where
  "nan_pivot_constants = canonical_constants(''REFERENCE_PIVOT_Y'' \<mapsto> fl_sub PosInf PosInf)"

text \<open>
  The signature scenario of the repository's test: a hull 20 wide observed against a
  stored band of 1 to 2 for its x extent.
\<close>

definition drifting_observed :: "(string \<times> (string \<times> real) list) list" where
  "drifting_observed = [(''gcsc_default'', [(''extent_x_mm'', 20)])]"

definition stored_bands :: "(string \<times> json) list" where
  "stored_bands =
     [(''schema_version'', JStr ''1.0''),
      (''presets'',
         JDict [(''gcsc_default'',
                   JDict [(''metrics'',
                             JDict [(''extent_x_mm'',
                                       JDict [(''min'', JNum 1), (''max'', JNum 2)])])])])]"

text \<open>The value of a named gate in a gates dict: present and true.\<close>

definition gate_holds :: "(string \<times> bool) list \<Rightarrow> string \<Rightarrow> bool" where
  "gate_holds gates name \<longleftrightarrow> map_of gates name = Some True"

section \<open>Properties\<close>

subsection \<open>Loops and numpy helpers\<close>

lemma collect_length: "collect f xs = Inr ys \<Longrightarrow> length ys = length xs"
  by (induction xs arbitrary: ys) (auto split: sum.splits)

lemma collect_map: "collect f xs = Inr ys \<Longrightarrow> map Inr ys = map f xs"
  by (induction xs arbitrary: ys) (auto split: sum.splits)

lemma collect_set:
  "collect f xs = Inr ys \<Longrightarrow> y \<in> set ys \<Longrightarrow> \<exists>x \<in> set xs. f x = Inr y"
  by (induction xs arbitrary: ys) (auto split: sum.splits)

lemma collect_returns:
  assumes "\<forall>x \<in> set xs. \<exists>y. f x = Inr y"
  shows "\<exists>ys. collect f xs = Inr ys"
  using assms
proof (induction xs)
  case Nil
  then show ?case by simp
next
  case (Cons x xs)
  then obtain y ys where "f x = Inr y" "collect f xs = Inr ys" by auto
  then show ?case by simp
qed

lemma map_filter_all_None: "(\<forall>x \<in> set xs. f x = None) \<Longrightarrow> List.map_filter f xs = []"
  by (induction xs) (auto simp: List.map_filter_simps)

lemma lookup_Inr: "lookup d k = Inr v \<longleftrightarrow> d k = Some v"
  by (simp add: lookup_def split: option.splits)

lemma lookup_present: "k \<in> dom d \<Longrightarrow> lookup d k = Inr (the (d k))"
  by (auto simp: lookup_def)

lemma linspace_ok:
  assumes "1 \<le> n"
  shows "\<exists>zs. linspace a b n = Inr zs \<and> zs \<noteq> [] \<and> int (length zs) = n"
  using assms by (auto simp: linspace_def)

lemma linspace_nth:
  assumes "2 \<le> n" "linspace a b n = Inr zs" "i < length zs"
  shows "zs ! i = a + of_nat i * ((b - a) / of_int (n - 1))"
  using assms by (auto simp: linspace_def)

lemma linspace_ends:
  assumes "2 \<le> n" "linspace a b n = Inr zs"
  shows "hd zs = a \<and> last zs = b"
proof -
  from assms have zs: "zs = map (\<lambda>i. a + of_nat i * ((b - a) / of_int (n - 1))) [0 ..< nat n]"
    by (auto simp: linspace_def)
  have n: "nat n = Suc (nat (n - 1))" using assms(1) by simp
  have "hd zs = a" unfolding zs n by (simp add: upt_conv_Cons del: upt_Suc)
  define c :: real where "c = of_int (n - 1)"
  have c: "c \<noteq> 0" "of_nat (nat (n - 1)) = c" using assms(1) by (simp_all add: c_def)
  have "last zs = a + of_nat (nat (n - 1)) * ((b - a) / of_int (n - 1))"
    unfolding zs n by (simp add: last_map)
  then have "last zs = a + c * ((b - a) / c)" using c(2) by (simp add: c_def)
  then have "last zs = b" using c(1) by simp
  with \<open>hd zs = a\<close> show ?thesis by simp
qed

lemma slot_scan_grid_ok:
  assumes "step \<noteq> 0" "0 \<le> py_round ((2 * radius) / step)"
  shows "\<exists>g. slot_scan_grid ex ey z radius step = Inr g \<and> g \<noteq> []"
proof -
  let ?n = "py_round ((2 * radius) / step) + 1"
  have n: "1 \<le> ?n" using assms(2) by simp
  from linspace_ok [OF n] obtain xs where xs: "linspace (ex - radius) (ex + radius) ?n = Inr xs" "xs \<noteq> []"
    by blast
  from linspace_ok [OF n] obtain ys where ys: "linspace (ey - radius) (ey + radius) ?n = Inr ys" "ys \<noteq> []"
    by blast
  from xs ys assms(1) show ?thesis
    by (cases xs; cases ys) (auto simp: slot_scan_grid_def Let_def)
qed

lemma np_argmax_ok: "xs \<noteq> [] \<Longrightarrow> \<exists>i. np_argmax xs = Inr i"
  by (cases xs) (auto simp: np_argmax_def)

subsection \<open>Reference constant lock\<close>

lemma lock_loop_total:
  assumes "fst ` set canon \<subseteq> dom constants"
  shows "lock_loop constants canon locked deltas =
           Inr (locked \<and> (\<forall>ne \<in> set canon.
                            \<not> fl_gt (fl_abs (fl_sub (the (constants (fst ne))) (Fin (snd ne))))
                                  (Fin (1 / 1000000))),
                deltas @ map (delta_entry constants) canon)"
  using assms
proof (induction canon arbitrary: locked deltas)
  case Nil
  then show ?case by simp
next
  case (Cons ne canon)
  obtain name expected where ne: "ne = (name, expected)" by (cases ne)
  from Cons.prems obtain observed where obs: "constants name = Some observed"
    by (auto simp: ne)
  have rest: "fst ` set canon \<subseteq> dom constants"
    using Cons.prems by simp
  show ?case
    using Cons.IH [OF rest] obs
    by (auto simp: ne Let_def delta_entry_def)
qed

text \<open>
  For a delta that is not NaN, "not greater than the tolerance" and "within the tolerance"
  are the same.
\<close>

lemma fl_within_iff:
  "x \<noteq> NaN \<Longrightarrow>
     \<not> fl_gt (fl_abs (fl_sub x (Fin e))) (Fin t) \<longleftrightarrow> fl_le (fl_abs (fl_sub x (Fin e))) (Fin t)"
  by (cases x) auto

text \<open>
  On a constant map that holds every canonical constant and resolves none of them to NaN
  (infinities included), the lock evaluation returns, \<open>locked\<close> is true exactly when every
  canonical constant's observed value is within 1e-6 of its canonical value, and the delta
  list has one entry per canonical constant, in the canonical order, recording name,
  expected value, observed value and their difference.
\<close>

lemma constant_lock_without_nan:
  assumes "fst ` set CANONICAL_REFERENCE_CONSTANTS \<subseteq> dom constants"
    and "\<forall>ne \<in> set CANONICAL_REFERENCE_CONSTANTS. constants (fst ne) \<noteq> Some NaN"
  shows "\<exists>locked deltas.
           evaluate_reference_constant_lock constants = Inr (locked, deltas)
         \<and> (locked \<longleftrightarrow>
              (\<forall>ne \<in> set CANONICAL_REFERENCE_CONSTANTS.
                 fl_le (fl_abs (fl_sub (the (constants (fst ne))) (Fin (snd ne))))
                   (Fin (1 / 1000000))))
         \<and> deltas = map (delta_entry constants) CANONICAL_REFERENCE_CONSTANTS
         \<and> length deltas = length CANONICAL_REFERENCE_CONSTANTS"
proof -
  have n: "the (constants (fst ne)) \<noteq> NaN" if "ne \<in> set CANONICAL_REFERENCE_CONSTANTS" for ne
  proof -
    from assms(1) that obtain v where "constants (fst ne) = Some v" by auto
    with assms(2) that show ?thesis by auto
  qed
  have "(\<forall>ne \<in> set CANONICAL_REFERENCE_CONSTANTS.
           \<not> fl_gt (fl_abs (fl_sub (the (constants (fst ne))) (Fin (snd ne)))) (Fin (1 / 1000000)))
     \<longleftrightarrow> (\<forall>ne \<in> set CANONICAL_REFERENCE_CONSTANTS.
           fl_le (fl_abs (fl_sub (the (constants (fst ne))) (Fin (snd ne)))) (Fin (1 / 1000000)))"
    using fl_within_iff [OF n] by (intro ball_cong refl)
  then show ?thesis
    unfolding evaluate_reference_constant_lock_def
    using lock_loop_total [OF assms(1), of True "[]"] by simp
qed

text \<open>
  C5. The lock is specified for every resolved constant map that holds all canonical
  constants: \<open>locked\<close> is true if and only if every canonical constant's observed value is
  within 1e-6 of its canonical value, and the delta list has one entry per canonical
  constant. The evaluation departs from this on a constant that resolved to NaN: for the
  map that holds the canonical values except a pivot height of \<^verbatim>\<open>inf - inf\<close>, it returns
  \<open>locked = True\<close> with one delta entry per canonical constant, and the entry of the pivot
  height records an observed value and a delta of NaN, which is not within 1e-6.
\<close>

theorem C5_nan_constant_locks:
  "\<exists>deltas. evaluate_reference_constant_lock nan_pivot_constants = Inr (True, deltas)
     \<and> length deltas = length CANONICAL_REFERENCE_CONSTANTS
     \<and> delta_name (hd deltas) = ''REFERENCE_PIVOT_Y''
     \<and> delta_observed (hd deltas) = NaN
     \<and> delta_mm (hd deltas) = NaN
     \<and> \<not> fl_le (fl_abs (delta_mm (hd deltas))) (Fin (1 / 1000000))"
  by (simp add: evaluate_reference_constant_lock_def CANONICAL_REFERENCE_CONSTANTS_def
      nan_pivot_constants_def canonical_constants_def Let_def)

subsection \<open>Insertion corridor\<close>

lemma build_thresholds_corridor_samples: "2 \<le> corridor_samples (build_thresholds args)"
  by (simp add: build_thresholds_def)

lemma measure_slot_geometry_returns:
  assumes "axis_scan_step_mm th \<noteq> 0"
    and "0 \<le> py_round ((2 * axis_scan_radius_mm th) / axis_scan_step_mm th)"
    and "1 \<le> corridor_samples th"
  shows "\<exists>r. measure_slot_geometry K hull_mesh ex ey seat entry ball th = Inr r"
proof -
  from slot_scan_grid_ok [OF assms(1,2)] obtain g where
    g: "slot_scan_grid ex ey seat (axis_scan_radius_mm th) (axis_scan_step_mm th) = Inr g" "g \<noteq> []"
    by blast
  from np_argmax_ok [of "map uminus (map (signed_distance K hull_mesh) g)"] g(2) obtain bi where
    bi: "np_argmax (map uminus (map (signed_distance K hull_mesh) g)) = Inr bi" by auto
  from linspace_ok [OF assms(3)] obtain zs where
    zs: "linspace seat entry (corridor_samples th) = Inr zs" "zs \<noteq> []"
    by blast
  show ?thesis
    using g(1) bi zs
    by (simp add: measure_slot_geometry_def Let_def np_min_def corridor_path_def)
qed

text \<open>
  C2. With a non-empty scan grid and at least two corridor samples (the count
  \<^verbatim>\<open>build_thresholds\<close> configures), the slot measurement returns; the corridor is sampled
  at the configured number of points \<open>(observed_x, observed_y, z)\<close> with \<open>z\<close> rising
  linearly from the seat height (first sample) to the entry height (last sample); the
  corridor minimum free radius is the minimum over these samples of the negated signed
  distance to the hull; the corridor clearance is that minimum minus the ball radius; and
  the corridor check passes exactly when the clearance is at least the minimum corridor
  clearance threshold.
\<close>

theorem C2_corridor:
  assumes "axis_scan_step_mm th \<noteq> 0"
    and "0 \<le> py_round ((2 * axis_scan_radius_mm th) / axis_scan_step_mm th)"
    and "2 \<le> corridor_samples th"
  shows "\<exists>r zs. measure_slot_geometry K hull_mesh ex ey seat entry ball th = Inr r
      \<and> linspace seat entry (corridor_samples th) = Inr zs
      \<and> int (length zs) = corridor_samples th
      \<and> (\<forall>i < length zs. zs ! i = seat + of_nat i * ((entry - seat) / of_int (corridor_samples th - 1)))
      \<and> hd zs = seat \<and> last zs = entry
      \<and> corridor_min_free_radius_mm r =
          Min ((\<lambda>p. - signed_distance K hull_mesh p) ` set (corridor_path (observed_x_mm r) (observed_y_mm r) zs))
      \<and> corridor_min_radial_clearance_mm r = corridor_min_free_radius_mm r - ball
      \<and> (corridor_pass r \<longleftrightarrow> corridor_radial_clearance_min_mm th \<le> corridor_min_radial_clearance_mm r)"
proof -
  from slot_scan_grid_ok [OF assms(1,2)] obtain g where
    g: "slot_scan_grid ex ey seat (axis_scan_radius_mm th) (axis_scan_step_mm th) = Inr g" "g \<noteq> []"
    by blast
  from np_argmax_ok [of "map uminus (map (signed_distance K hull_mesh) g)"] g(2) obtain bi where
    bi: "np_argmax (map uminus (map (signed_distance K hull_mesh) g)) = Inr bi" by auto
  have n1: "1 \<le> corridor_samples th" using assms(3) by simp
  from linspace_ok [OF n1] obtain zs where
    zs: "linspace seat entry (corridor_samples th) = Inr zs" "zs \<noteq> []" "int (length zs) = corridor_samples th"
    by blast
  note ends = linspace_ends [OF assms(3) zs(1)]
  have nth: "\<forall>i < length zs. zs ! i = seat + of_nat i * ((entry - seat) / of_int (corridor_samples th - 1))"
    using linspace_nth [OF assms(3) zs(1)] by blast
  show ?thesis
    using g(1) bi zs ends nth
    by (simp add: measure_slot_geometry_def Let_def np_min_def corridor_path_def image_image)
qed

theorem C2_corridor_witness:
  "\<exists>r. measure_slot_geometry slab_kernel unit_mesh 16 33 (- 7) 0 (29 / 8) narrow_thresholds = Inr r
     \<and> corridor_min_free_radius_mm r = 43
     \<and> corridor_min_radial_clearance_mm r = 315 / 8
     \<and> corridor_pass r"
proof -
  have h: "axis_scan_step_mm narrow_thresholds \<noteq> 0"
    "0 \<le> py_round ((2 * axis_scan_radius_mm narrow_thresholds) / axis_scan_step_mm narrow_thresholds)"
    "2 \<le> corridor_samples narrow_thresholds"
    by (simp_all add: narrow_thresholds_def default_thresholds_def py_round_def)
  from C2_corridor [OF h, of slab_kernel unit_mesh 16 33 "- 7" 0 "29 / 8"] obtain r zs where
    e: "measure_slot_geometry slab_kernel unit_mesh 16 33 (- 7) 0 (29 / 8) narrow_thresholds = Inr r" and
    z: "linspace (- 7) 0 (corridor_samples narrow_thresholds) = Inr zs" and
    m: "corridor_min_free_radius_mm r =
          Min ((\<lambda>p. - signed_distance slab_kernel unit_mesh p)
                 ` set (corridor_path (observed_x_mm r) (observed_y_mm r) zs))" and
    c: "corridor_min_radial_clearance_mm r = corridor_min_free_radius_mm r - 29 / 8" and
    p: "corridor_pass r \<longleftrightarrow>
          corridor_radial_clearance_min_mm narrow_thresholds \<le> corridor_min_radial_clearance_mm r"
    by blast
  from z have zs: "zs = [- 7, - 7 / 2, 0]"
    by (simp add: linspace_def narrow_thresholds_def default_thresholds_def upt_rec)
  have m': "corridor_min_free_radius_mm r = 43"
    unfolding m zs by (simp add: corridor_path_def slab_kernel_def pz_def)
  with c p e show ?thesis
    by (simp add: narrow_thresholds_def default_thresholds_def)
qed

subsection \<open>Frame interference\<close>

lemma count_over_zero: "length (filter P xs) = 0 \<longleftrightarrow> (\<forall>x \<in> set xs. \<not> P x)"
  by (simp add: filter_empty_conv)

lemma neg_image_abs:
  "uminus ` {d \<in> f ` S. d \<le> (0::real)} = (\<lambda>p. \<bar>f p\<bar>) ` {p \<in> S. f p \<le> 0}"
  by (auto simp: image_iff)

lemma frame_placement_returns:
  assumes "vertices frame_mesh \<noteq> []"
  shows "\<exists>r. frame_placement K hull_mesh frame_mesh spacing align th x_sign = Inr r"
  using assms
  by (simp add: frame_placement_def frame_sample_points_def np_max_def np_min_def Let_def)

lemma frame_placement_interference:
  assumes "frame_placement K hull_mesh frame_mesh spacing align th x_sign = Inr r"
  shows "interference_rule K hull_mesh th (placed_samples frame_mesh spacing align x_sign) r"
proof -
  let ?S = "placed_samples frame_mesh spacing align x_sign"
  let ?sd = "signed_distance K hull_mesh"
  from assms have ip: "interference_pass r \<longleftrightarrow>
      length (filter (\<lambda>d. d > frame_penetration_max_mm th) (map ?sd ?S)) = 0
      \<and> frame_min_gap_mm th \<le> min_gap_mm r"
    and mg: "min_gap_mm r =
      (if filter (\<lambda>d. d \<le> 0) (map ?sd ?S) \<noteq> []
       then Min (set (map uminus (filter (\<lambda>d. d \<le> 0) (map ?sd ?S)))) else 0)"
    by (auto simp: frame_placement_def placed_samples_def Let_def split: sum.splits)
  have a: "interference_pass r \<longleftrightarrow>
        (\<forall>p \<in> set ?S. ?sd p \<le> frame_penetration_max_mm th) \<and> frame_min_gap_mm th \<le> min_gap_mm r"
    unfolding ip count_over_zero by (auto simp: not_less)
  have b: "min_gap_mm r = Min ((\<lambda>p. \<bar>?sd p\<bar>) ` {p \<in> set ?S. ?sd p \<le> 0})"
    if "\<exists>p \<in> set ?S. ?sd p \<le> 0"
  proof -
    from that have ne: "filter (\<lambda>d. d \<le> 0) (map ?sd ?S) \<noteq> []"
      by (auto simp: filter_empty_conv)
    have "set (map uminus (filter (\<lambda>d. d \<le> 0) (map ?sd ?S)))
            = uminus ` {d \<in> ?sd ` set ?S. d \<le> 0}"
      by auto
    also have "\<dots> = (\<lambda>p. \<bar>?sd p\<bar>) ` {p \<in> set ?S. ?sd p \<le> 0}"
      by (rule neg_image_abs)
    finally show ?thesis using mg ne by simp
  qed
  have c: "min_gap_mm r = 0" if "\<forall>p \<in> set ?S. 0 < ?sd p"
  proof -
    from that have "filter (\<lambda>d. d \<le> 0) (map ?sd ?S) = []"
      by (auto simp: filter_empty_conv)
    with mg show ?thesis by simp
  qed
  show ?thesis unfolding interference_rule_def using a b c by blast
qed

text \<open>
  C3. When the frame analysis returns, it holds one result per mirrored placement
  (\<open>x_sign = -1\<close>, then \<open>x_sign = 1\<close>), and each obeys the interference rule over its own
  sample points (all frame vertices and face centroids, translated by the placement
  offset): the placement passes exactly when no sample's signed distance exceeds the
  penetration tolerance and the minimum magnitude of signed distance among the
  non-penetrating samples is at least the minimum gap. Both conditions are required.
\<close>

theorem C3_frame_interference:
  assumes "analyze_frame_fit K hull_mesh frame_mesh spacing align th = Inr results"
  shows "\<exists>left right. results = [left, right]
     \<and> frame_placement K hull_mesh frame_mesh spacing align th (- 1) = Inr left
     \<and> frame_placement K hull_mesh frame_mesh spacing align th 1 = Inr right
     \<and> interference_rule K hull_mesh th (placed_samples frame_mesh spacing align (- 1)) left
     \<and> interference_rule K hull_mesh th (placed_samples frame_mesh spacing align 1) right"
proof -
  from assms obtain left right where
    l: "frame_placement K hull_mesh frame_mesh spacing align th (- 1) = Inr left" and
    r: "frame_placement K hull_mesh frame_mesh spacing align th 1 = Inr right" and
    res: "results = [left, right]"
    by (auto simp: analyze_frame_fit_def split: sum.splits)
  from frame_placement_interference [OF l] frame_placement_interference [OF r] l r res
  show ?thesis by blast
qed

lemma slab_frame_eval:
  "\<exists>left right. analyze_frame_fit slab_kernel unit_mesh unit_mesh 16 (- 45) narrow_thresholds
      = Inr [left, right]"
  by (simp add: analyze_frame_fit_def frame_placement_def np_max_def np_min_def
      frame_sample_points_def unit_mesh_def Let_def)

theorem C3_frame_interference_witness:
  "\<exists>left right. analyze_frame_fit slab_kernel unit_mesh unit_mesh 16 (- 45) narrow_thresholds
      = Inr [left, right]
     \<and> min_gap_mm left = 22 \<and> interference_pass left
     \<and> min_gap_mm right = 22 \<and> interference_pass right"
proof -
  from slab_frame_eval obtain left right where
    e: "analyze_frame_fit slab_kernel unit_mesh unit_mesh 16 (- 45) narrow_thresholds
          = Inr [left, right]" by blast
  have s: "placed_samples unit_mesh 16 (- 45) (- 1) = [(- 16, 0, - 28)]"
    "placed_samples unit_mesh 16 (- 45) 1 = [(16, 0, - 28)]"
    by (simp_all add: placed_samples_def frame_sample_points_def unit_mesh_def translate_def
        px_def py_def pz_def)
  from C3_frame_interference [OF e] have
    l: "interference_rule slab_kernel unit_mesh narrow_thresholds [(- 16, 0, - 28)] left" and
    r: "interference_rule slab_kernel unit_mesh narrow_thresholds [(16, 0, - 28)] right"
    unfolding s by auto
  have gl: "min_gap_mm left = 22"
    using l by (simp add: interference_rule_def slab_kernel_def pz_def)
  have gr: "min_gap_mm right = 22"
    using r by (simp add: interference_rule_def slab_kernel_def pz_def)
  have "interference_pass left"
    using l gl by (simp add: interference_rule_def slab_kernel_def pz_def narrow_thresholds_def
        default_thresholds_def)
  moreover have "interference_pass right"
    using r gr by (simp add: interference_rule_def slab_kernel_def pz_def narrow_thresholds_def
        default_thresholds_def)
  ultimately show ?thesis using e gl gr by blast
qed

subsection \<open>A frame entirely inside hull material\<close>

lemma angle_check_returns:
  assumes "neutral \<noteq> []"
  shows "\<exists>a. angle_check K hull_mesh neutral x_offset seat_z pen_tol gap_tol angle = Inr a"
  using assms by (simp add: angle_check_def np_max_def Let_def)

lemma frame_placement_all_penetrating:
  assumes "frame_placement K hull_mesh frame_mesh spacing align th x_sign = Inr r"
    and "\<forall>p \<in> set (placed_samples frame_mesh spacing align x_sign). 0 < signed_distance K hull_mesh p"
  shows "min_gap_mm r = 0 \<and> (0 < frame_min_gap_mm th \<longrightarrow> \<not> interference_pass r)"
proof -
  let ?S = "placed_samples frame_mesh spacing align x_sign"
  let ?sd = "signed_distance K hull_mesh"
  have emp: "filter (\<lambda>d. d \<le> 0) (map ?sd ?S) = []"
    using assms(2) by (auto simp: filter_empty_conv)
  from assms(1) have mg: "min_gap_mm r =
      (if filter (\<lambda>d. d \<le> 0) (map ?sd ?S) \<noteq> []
       then Min (set (map uminus (filter (\<lambda>d. d \<le> 0) (map ?sd ?S)))) else 0)"
    and ip: "interference_pass r \<longrightarrow> frame_min_gap_mm th \<le> min_gap_mm r"
    by (auto simp: frame_placement_def placed_samples_def Let_def split: sum.splits)
  from mg emp have "min_gap_mm r = 0" by simp
  with ip show ?thesis by auto
qed

lemma angle_check_all_penetrating:
  assumes "angle_check K hull_mesh neutral x_offset seat_z pen_tol gap_tol angle = Inr a"
    and "\<forall>p \<in> set neutral.
           0 < signed_distance K hull_mesh (rotate_about_y (radians angle) (x_offset, 0, seat_z) p)"
  shows "angle_min_gap_mm a = 0 \<and> (0 < gap_tol \<longrightarrow> \<not> angle_pass a)"
proof -
  let ?P = "map (rotate_about_y (radians angle) (x_offset, 0, seat_z)) neutral"
  let ?sd = "signed_distance K hull_mesh"
  have emp: "filter (\<lambda>d. d \<le> 0) (map ?sd ?P) = []"
    using assms(2) by (auto simp: filter_empty_conv)
  from assms(1) have mg: "angle_min_gap_mm a =
      (if filter (\<lambda>d. d \<le> 0) (map ?sd ?P) \<noteq> []
       then Min (set (map uminus (filter (\<lambda>d. d \<le> 0) (map ?sd ?P)))) else 0)"
    and ip: "angle_pass a \<longrightarrow> gap_tol \<le> angle_min_gap_mm a"
    by (auto simp: angle_check_def Let_def split: sum.splits)
  from mg emp have "angle_min_gap_mm a = 0" by simp
  with ip show ?thesis by auto
qed

text \<open>
  C9. For a frame with at least one vertex, the placement check at rest returns, and for
  a non-empty set of sample points the check at a swing angle returns. When every sample
  point has positive signed distance (all samples penetrate the hull), the reported
  \<open>min_gap_mm\<close> is 0 (the minimum over the empty set of non-penetrating samples is never
  taken), and under a strictly positive minimum-gap threshold the placement fails its
  interference check, respectively its angle check.
\<close>

theorem C9_all_samples_penetrate:
  "(vertices frame_mesh \<noteq> [] \<longrightarrow>
      (\<exists>r. frame_placement K hull_mesh frame_mesh spacing align th x_sign = Inr r
          \<and> ((\<forall>p \<in> set (placed_samples frame_mesh spacing align x_sign).
                 0 < signed_distance K hull_mesh p)
               \<longrightarrow> min_gap_mm r = 0 \<and> (0 < frame_min_gap_mm th \<longrightarrow> \<not> interference_pass r))))
   \<and> (neutral \<noteq> [] \<longrightarrow>
      (\<exists>a. angle_check K hull_mesh neutral x_offset seat_z pen_tol gap_tol angle = Inr a
          \<and> ((\<forall>p \<in> set neutral.
                 0 < signed_distance K hull_mesh
                       (rotate_about_y (radians angle) (x_offset, 0, seat_z) p))
               \<longrightarrow> angle_min_gap_mm a = 0 \<and> (0 < gap_tol \<longrightarrow> \<not> angle_pass a))))"
  using frame_placement_returns [of frame_mesh K hull_mesh spacing align th x_sign]
    frame_placement_all_penetrating [of K hull_mesh frame_mesh spacing align th x_sign]
    angle_check_returns [of neutral K hull_mesh x_offset seat_z pen_tol gap_tol angle]
    angle_check_all_penetrating [of K hull_mesh neutral x_offset seat_z pen_tol gap_tol angle]
  by blast

theorem C9_all_samples_penetrate_witness:
  "(\<exists>r. frame_placement slab_kernel unit_mesh unit_mesh 16 (- 100) narrow_thresholds 1 = Inr r
       \<and> min_gap_mm r = 0 \<and> \<not> interference_pass r)
   \<and> (\<exists>a. angle_check slab_kernel unit_mesh [(16, 0, - 83)] 16 (- 7) (1 / 100) (8 / 100) 0 = Inr a
       \<and> angle_min_gap_mm a = 0 \<and> \<not> angle_pass a)"
proof -
  have v: "vertices unit_mesh \<noteq> []" by (simp add: unit_mesh_def)
  have s: "\<forall>p \<in> set (placed_samples unit_mesh 16 (- 100) 1). 0 < signed_distance slab_kernel unit_mesh p"
    by (simp add: placed_samples_def frame_sample_points_def unit_mesh_def translate_def
        px_def py_def pz_def slab_kernel_def)
  have t: "0 < frame_min_gap_mm narrow_thresholds"
    by (simp add: narrow_thresholds_def default_thresholds_def)
  have n: "[(16, 0, - 83) :: point] \<noteq> []" by simp
  have a: "\<forall>p \<in> set [(16, 0, - 83) :: point].
            0 < signed_distance slab_kernel unit_mesh (rotate_about_y (radians 0) (16, 0, - 7) p)"
    by (simp add: rotate_about_y_def radians_def px_def py_def pz_def slab_kernel_def)
  have g: "(0::real) < 8 / 100" by simp
  from C9_all_samples_penetrate [of unit_mesh slab_kernel unit_mesh 16 "- 100" narrow_thresholds 1
      "[(16, 0, - 83)]" 16 "- 7" "1 / 100" "8 / 100" 0] v s t n a g
  show ?thesis by blast
qed

subsection \<open>Overall reference-fit verdict\<close>

lemma analyze_reference_fit_cases:
  assumes "analyze_reference_fit K hull_mesh frame_mesh slot_plug_mesh consts th locked = Inr rep"
  obtains slot_results frame_results where
    "collect (\<lambda>(x_sign, y_sign).
        measure_slot_geometry K hull_mesh
          (of_int x_sign * the (consts ''REFERENCE_FRAME_SPACING''))
          (of_int y_sign * the (consts ''REFERENCE_PIVOT_Y''))
          (the (consts ''REFERENCE_PIVOT_Z'') - the (consts ''REFERENCE_COORDINATE_RIM_Z'')
             + the (consts ''REFERENCE_MODEL_RIM_Z''))
          (the (consts ''REFERENCE_SLOT_ENTRY_Z'') - the (consts ''REFERENCE_COORDINATE_RIM_Z'')
             + the (consts ''REFERENCE_MODEL_RIM_Z''))
          (the (consts ''REFERENCE_BALL_DIAMETER'') / 2) th) slot_signs = Inr slot_results"
    "analyze_frame_fit K hull_mesh frame_mesh (the (consts ''REFERENCE_FRAME_SPACING''))
        (the (consts ''REFERENCE_MODEL_RIM_Z'') - the (consts ''REFERENCE_COORDINATE_RIM_Z'')) th
       = Inr frame_results"
    "slot_checks (fit_measurements rep) = slot_results"
    "frame_checks (fit_measurements rep) = frame_results"
    "slot_depth_mm (fit_measurements rep) =
       the (consts ''REFERENCE_SLOT_ENTRY_Z'') - the (consts ''REFERENCE_PIVOT_Z'')"
    "fit_gates rep =
       [(''hull_mesh_watertight'', is_watertight hull_mesh),
        (''reference_constants_locked'', locked),
        (''slot_axis_positions'', list_all axis_pass slot_results),
        (''slot_depth'',
           \<bar>the (consts ''REFERENCE_SLOT_ENTRY_Z'') - the (consts ''REFERENCE_PIVOT_Z'')
              - slot_depth_target_mm th\<bar> \<le> slot_depth_tolerance_mm th),
        (''slot_insertion_corridor'', list_all corridor_pass slot_results),
        (''frame_interference'', list_all interference_pass frame_results),
        (''frame_floor_clearance'', list_all floor_clearance_pass frame_results)]"
    "fit_pass rep = list_all snd (fit_gates rep)"
  using assms unfolding analyze_reference_fit_def Let_def
  by (auto simp: lookup_Inr split: sum.splits)

text \<open>
  The analysis returns a report whenever the eight constants it reads are present, the
  scan grid and the corridor are non-empty and the frame has a vertex.
\<close>

lemma analyze_reference_fit_returns:
  assumes c: "''REFERENCE_FRAME_SPACING'' \<in> dom consts" "''REFERENCE_PIVOT_Y'' \<in> dom consts"
      "''REFERENCE_SLOT_DIAMETER'' \<in> dom consts" "''REFERENCE_BALL_DIAMETER'' \<in> dom consts"
      "''REFERENCE_PIVOT_Z'' \<in> dom consts" "''REFERENCE_SLOT_ENTRY_Z'' \<in> dom consts"
      "''REFERENCE_COORDINATE_RIM_Z'' \<in> dom consts" "''REFERENCE_MODEL_RIM_Z'' \<in> dom consts"
    and g: "axis_scan_step_mm th \<noteq> 0"
      "0 \<le> py_round ((2 * axis_scan_radius_mm th) / axis_scan_step_mm th)"
      "1 \<le> corridor_samples th"
    and v: "vertices frame_mesh \<noteq> []"
  shows "\<exists>rep. analyze_reference_fit K hull_mesh frame_mesh slot_plug_mesh consts th locked = Inr rep"
proof -
  let ?slot = "\<lambda>(x_sign, y_sign).
        measure_slot_geometry K hull_mesh
          (of_int x_sign * the (consts ''REFERENCE_FRAME_SPACING''))
          (of_int y_sign * the (consts ''REFERENCE_PIVOT_Y''))
          (the (consts ''REFERENCE_PIVOT_Z'') - the (consts ''REFERENCE_COORDINATE_RIM_Z'')
             + the (consts ''REFERENCE_MODEL_RIM_Z''))
          (the (consts ''REFERENCE_SLOT_ENTRY_Z'') - the (consts ''REFERENCE_COORDINATE_RIM_Z'')
             + the (consts ''REFERENCE_MODEL_RIM_Z''))
          (the (consts ''REFERENCE_BALL_DIAMETER'') / 2) th"
  have "\<forall>s \<in> set slot_signs. \<exists>y. ?slot s = Inr y"
    using measure_slot_geometry_returns [OF g] by auto
  from collect_returns [OF this] obtain slot_results where
    s: "collect ?slot slot_signs = Inr slot_results" by blast
  have "\<forall>x \<in> set [- 1, 1 :: int]. \<exists>y.
          frame_placement K hull_mesh frame_mesh (the (consts ''REFERENCE_FRAME_SPACING''))
            (the (consts ''REFERENCE_MODEL_RIM_Z'') - the (consts ''REFERENCE_COORDINATE_RIM_Z''))
            th x = Inr y"
    using frame_placement_returns [OF v] by blast
  from collect_returns [OF this] obtain frame_results where
    f: "analyze_frame_fit K hull_mesh frame_mesh (the (consts ''REFERENCE_FRAME_SPACING''))
          (the (consts ''REFERENCE_MODEL_RIM_Z'') - the (consts ''REFERENCE_COORDINATE_RIM_Z''))
          th = Inr frame_results"
    unfolding analyze_frame_fit_def by blast
  show ?thesis
    unfolding analyze_reference_fit_def
    by (simp add: lookup_present c s f Let_def del: collect.simps)
qed

text \<open>
  C1. Whenever the reference-fit analysis returns a report, the report holds four slot
  checks (the slot measurements at the four seats \<open>(\<plusminus>spacing, \<plusminus>pivot_y)\<close>) and two
  frame checks (the two mirrored placements), its gates dict holds the seven named gates,
  and its overall pass is true exactly when all seven hold: the hull mesh is watertight,
  the reference constants are locked, all four slot axis checks pass, the slot depth
  (entry height minus pivot height) is within tolerance of the target, all four corridor
  checks pass, both placements pass interference and both placements pass floor
  clearance.
\<close>

theorem C1_overall_pass:
  assumes "analyze_reference_fit K hull_mesh frame_mesh slot_plug_mesh consts th locked = Inr rep"
  shows "length (slot_checks (fit_measurements rep)) = 4
       \<and> map Inr (slot_checks (fit_measurements rep)) =
           map (\<lambda>(x_sign, y_sign).
                  measure_slot_geometry K hull_mesh
                    (of_int x_sign * the (consts ''REFERENCE_FRAME_SPACING''))
                    (of_int y_sign * the (consts ''REFERENCE_PIVOT_Y''))
                    (the (consts ''REFERENCE_PIVOT_Z'') - the (consts ''REFERENCE_COORDINATE_RIM_Z'')
                       + the (consts ''REFERENCE_MODEL_RIM_Z''))
                    (the (consts ''REFERENCE_SLOT_ENTRY_Z'') - the (consts ''REFERENCE_COORDINATE_RIM_Z'')
                       + the (consts ''REFERENCE_MODEL_RIM_Z''))
                    (the (consts ''REFERENCE_BALL_DIAMETER'') / 2) th)
             slot_signs
       \<and> length (frame_checks (fit_measurements rep)) = 2
       \<and> analyze_frame_fit K hull_mesh frame_mesh (the (consts ''REFERENCE_FRAME_SPACING''))
            (the (consts ''REFERENCE_MODEL_RIM_Z'') - the (consts ''REFERENCE_COORDINATE_RIM_Z'')) th
           = Inr (frame_checks (fit_measurements rep))
       \<and> slot_depth_mm (fit_measurements rep) =
           the (consts ''REFERENCE_SLOT_ENTRY_Z'') - the (consts ''REFERENCE_PIVOT_Z'')
       \<and> map fst (fit_gates rep) =
           [''hull_mesh_watertight'', ''reference_constants_locked'', ''slot_axis_positions'',
            ''slot_depth'', ''slot_insertion_corridor'', ''frame_interference'',
            ''frame_floor_clearance'']
       \<and> (fit_pass rep \<longleftrightarrow>
            is_watertight hull_mesh
          \<and> locked
          \<and> (\<forall>s \<in> set (slot_checks (fit_measurements rep)). axis_pass s)
          \<and> \<bar>slot_depth_mm (fit_measurements rep) - slot_depth_target_mm th\<bar>
               \<le> slot_depth_tolerance_mm th
          \<and> (\<forall>s \<in> set (slot_checks (fit_measurements rep)). corridor_pass s)
          \<and> (\<forall>f \<in> set (frame_checks (fit_measurements rep)). interference_pass f)
          \<and> (\<forall>f \<in> set (frame_checks (fit_measurements rep)). floor_clearance_pass f))"
proof -
  from assms obtain slot_results frame_results where
    s: "collect (\<lambda>(x_sign, y_sign).
        measure_slot_geometry K hull_mesh
          (of_int x_sign * the (consts ''REFERENCE_FRAME_SPACING''))
          (of_int y_sign * the (consts ''REFERENCE_PIVOT_Y''))
          (the (consts ''REFERENCE_PIVOT_Z'') - the (consts ''REFERENCE_COORDINATE_RIM_Z'')
             + the (consts ''REFERENCE_MODEL_RIM_Z''))
          (the (consts ''REFERENCE_SLOT_ENTRY_Z'') - the (consts ''REFERENCE_COORDINATE_RIM_Z'')
             + the (consts ''REFERENCE_MODEL_RIM_Z''))
          (the (consts ''REFERENCE_BALL_DIAMETER'') / 2) th) slot_signs = Inr slot_results" and
    f: "analyze_frame_fit K hull_mesh frame_mesh (the (consts ''REFERENCE_FRAME_SPACING''))
        (the (consts ''REFERENCE_MODEL_RIM_Z'') - the (consts ''REFERENCE_COORDINATE_RIM_Z'')) th
       = Inr frame_results" and
    m: "slot_checks (fit_measurements rep) = slot_results"
       "frame_checks (fit_measurements rep) = frame_results"
       "slot_depth_mm (fit_measurements rep) =
          the (consts ''REFERENCE_SLOT_ENTRY_Z'') - the (consts ''REFERENCE_PIVOT_Z'')" and
    g: "fit_gates rep =
       [(''hull_mesh_watertight'', is_watertight hull_mesh),
        (''reference_constants_locked'', locked),
        (''slot_axis_positions'', list_all axis_pass slot_results),
        (''slot_depth'',
           \<bar>the (consts ''REFERENCE_SLOT_ENTRY_Z'') - the (consts ''REFERENCE_PIVOT_Z'')
              - slot_depth_target_mm th\<bar> \<le> slot_depth_tolerance_mm th),
        (''slot_insertion_corridor'', list_all corridor_pass slot_results),
        (''frame_interference'', list_all interference_pass frame_results),
        (''frame_floor_clearance'', list_all floor_clearance_pass frame_results)]" and
    p: "fit_pass rep = list_all snd (fit_gates rep)"
    by (rule analyze_reference_fit_cases)
  have l4: "length slot_results = 4"
    using collect_length [OF s] by (simp add: slot_signs_def)
  have l2: "length frame_results = 2"
    using collect_length [OF f [unfolded analyze_frame_fit_def]] by simp
  note sm = collect_map [OF s]
  show ?thesis
    unfolding p g m using l4 l2 sm f by (simp add: list_all_iff)
qed

lemma slab_fit_eval:
  "\<exists>rep. analyze_reference_fit slab_kernel unit_mesh unit_mesh unit_mesh
            (map_of CANONICAL_REFERENCE_CONSTANTS) narrow_thresholds True = Inr rep
     \<and> list_all axis_pass (slot_checks (fit_measurements rep))
     \<and> list_all corridor_pass (slot_checks (fit_measurements rep))
     \<and> list_all interference_pass (frame_checks (fit_measurements rep))
     \<and> list_all floor_clearance_pass (frame_checks (fit_measurements rep))
     \<and> slot_depth_mm (fit_measurements rep) = 7"
  by (simp add: analyze_reference_fit_def lookup_def CANONICAL_REFERENCE_CONSTANTS_def
      slot_signs_def measure_slot_geometry_def slot_scan_grid_def py_round_def linspace_def
      np_argmax_def np_min_def np_max_def corridor_path_def slab_kernel_def unit_mesh_def
      narrow_thresholds_def default_thresholds_def analyze_frame_fit_def frame_placement_def
      frame_sample_points_def translate_def px_def py_def pz_def measure_floor_clearances_def
      floor_clearance_of_def List.map_filter_simps Let_def upt_rec)

theorem C1_overall_pass_witness:
  "\<exists>rep. analyze_reference_fit slab_kernel unit_mesh unit_mesh unit_mesh
            (map_of CANONICAL_REFERENCE_CONSTANTS) narrow_thresholds True = Inr rep
     \<and> length (slot_checks (fit_measurements rep)) = 4
     \<and> length (frame_checks (fit_measurements rep)) = 2
     \<and> fit_pass rep"
proof -
  from slab_fit_eval obtain rep where
    e: "analyze_reference_fit slab_kernel unit_mesh unit_mesh unit_mesh
            (map_of CANONICAL_REFERENCE_CONSTANTS) narrow_thresholds True = Inr rep" and
    g: "list_all axis_pass (slot_checks (fit_measurements rep))"
       "list_all corridor_pass (slot_checks (fit_measurements rep))"
       "list_all interference_pass (frame_checks (fit_measurements rep))"
       "list_all floor_clearance_pass (frame_checks (fit_measurements rep))"
       "slot_depth_mm (fit_measurements rep) = 7"
    by blast
  have w: "is_watertight unit_mesh" by (simp add: unit_mesh_def)
  have d: "\<bar>slot_depth_mm (fit_measurements rep) - slot_depth_target_mm narrow_thresholds\<bar>
             \<le> slot_depth_tolerance_mm narrow_thresholds"
    using g(5) by (simp add: narrow_thresholds_def default_thresholds_def)
  from C1_overall_pass [OF e] g(1-4) w d have "fit_pass rep"
    by (simp add: list_all_iff)
  with C1_overall_pass [OF e] e show ?thesis by blast
qed

subsection \<open>Floor clearance\<close>

lemma floor_clearance_of_no_hit_below:
  assumes "\<forall>h \<in> set (intersects_location K hull_mesh (translate (0, 0, - (1 / 10000)) p) (0, 0, - 1)).
             \<not> pz h < pz p - 1 / 1000000"
  shows "floor_clearance_of K hull_mesh p = None"
proof -
  have "filter (\<lambda>z. z < pz p - 1 / 1000000)
          (map pz (intersects_location K hull_mesh (translate (0, 0, - (1 / 10000)) p) (0, 0, - 1))) = []"
    using assms by (auto simp: filter_empty_conv)
  then show ?thesis by (simp add: floor_clearance_of_def Let_def)
qed

lemma frame_placement_vertices:
  assumes "frame_placement K hull_mesh frame_mesh spacing align th x_sign = Inr r"
  shows "vertices frame_mesh \<noteq> []"
proof
  assume "vertices frame_mesh = []"
  then have "frame_placement K hull_mesh frame_mesh spacing align th x_sign = Inl ValueError"
    by (simp add: frame_placement_def frame_sample_points_def np_max_def np_min_def Let_def)
  with assms show False by simp
qed

lemma frame_placement_floor_fields:
  assumes "vertices frame_mesh \<noteq> []"
  shows "\<exists>r. frame_placement K hull_mesh frame_mesh spacing align th x_sign = Inr r
    \<and> floor_clearance_samples_mm r =
           List.map_filter (floor_clearance_of K hull_mesh)
             (placed_bottom_points frame_mesh spacing align th x_sign)
    \<and> placement_floor_clearance_min_mm r =
           (if floor_clearance_samples_mm r \<noteq> [] then Some (Min (set (floor_clearance_samples_mm r)))
            else None)
    \<and> (floor_clearance_pass r \<longleftrightarrow>
           (case placement_floor_clearance_min_mm r of
              None \<Rightarrow> False | Some c \<Rightarrow> floor_clearance_min_mm th \<le> c))"
  using assms
  by (simp add: frame_placement_def frame_sample_points_def placed_bottom_points_def
      measure_floor_clearances_def np_max_def np_min_def Let_def List.map_filter_simps
      image_image o_def)

lemma frame_placement_floor:
  assumes "frame_placement K hull_mesh frame_mesh spacing align th x_sign = Inr r"
  shows "floor_clearance_samples_mm r =
           List.map_filter (floor_clearance_of K hull_mesh)
             (placed_bottom_points frame_mesh spacing align th x_sign)"
    and "placement_floor_clearance_min_mm r =
           (if floor_clearance_samples_mm r \<noteq> [] then Some (Min (set (floor_clearance_samples_mm r)))
            else None)"
    and "floor_clearance_pass r \<longleftrightarrow>
           (case placement_floor_clearance_min_mm r of
              None \<Rightarrow> False | Some c \<Rightarrow> floor_clearance_min_mm th \<le> c)"
  using frame_placement_floor_fields [OF frame_placement_vertices [OF assms],
      of K hull_mesh spacing align th x_sign] assms
  by auto

lemma analyze_frame_fit_floor:
  assumes "analyze_frame_fit K hull_mesh frame_mesh spacing align th = Inr results"
    and "f \<in> set results" and "placement_floor_clearance_min_mm f = None"
  shows "\<not> floor_clearance_pass f"
proof -
  from collect_set [OF assms(1) [unfolded analyze_frame_fit_def] assms(2)] obtain x_sign where
    "frame_placement K hull_mesh frame_mesh spacing align th x_sign = Inr f" by blast
  from frame_placement_floor(3) [OF this] assms(3) show ?thesis by simp
qed

text \<open>
  C10. A bottom contact point whose downward ray has no hull hit more than 1e-6 below it
  contributes no clearance sample. When a placement check returns, its clearance samples
  are exactly the samples its bottom contact points contribute; if no contact point
  contributes one (in particular if there is no contact point), the placement's
  \<open>floor_clearance_min_mm\<close> is \<open>None\<close> and its floor check fails; a passing floor check
  always has a measured minimum at or above the threshold. In the overall analysis, a
  placement without a measured floor clearance makes the overall verdict fail.
\<close>

theorem C10_floor_fails_closed:
  "(\<forall>p. (\<forall>h \<in> set (intersects_location K hull_mesh (translate (0, 0, - (1 / 10000)) p) (0, 0, - 1)).
             \<not> pz h < pz p - 1 / 1000000)
         \<longrightarrow> floor_clearance_of K hull_mesh p = None)
   \<and> (frame_placement K hull_mesh frame_mesh spacing align th x_sign = Inr r \<longrightarrow>
        floor_clearance_samples_mm r =
          List.map_filter (floor_clearance_of K hull_mesh)
            (placed_bottom_points frame_mesh spacing align th x_sign)
      \<and> ((\<forall>p \<in> set (placed_bottom_points frame_mesh spacing align th x_sign).
             floor_clearance_of K hull_mesh p = None)
           \<longrightarrow> placement_floor_clearance_min_mm r = None \<and> \<not> floor_clearance_pass r)
      \<and> (floor_clearance_pass r \<longrightarrow>
            (\<exists>c. placement_floor_clearance_min_mm r = Some c \<and> floor_clearance_min_mm th \<le> c)))
   \<and> (analyze_reference_fit K hull_mesh frame_mesh slot_plug_mesh consts th' locked = Inr rep
        \<and> (\<exists>f \<in> set (frame_checks (fit_measurements rep)). placement_floor_clearance_min_mm f = None)
       \<longrightarrow> \<not> fit_pass rep)"
proof (intro conjI allI impI)
  fix p
  assume "\<forall>h \<in> set (intersects_location K hull_mesh (translate (0, 0, - (1 / 10000)) p) (0, 0, - 1)).
             \<not> pz h < pz p - 1 / 1000000"
  then show "floor_clearance_of K hull_mesh p = None"
    by (rule floor_clearance_of_no_hit_below)
next
  assume a: "frame_placement K hull_mesh frame_mesh spacing align th x_sign = Inr r"
  show "floor_clearance_samples_mm r =
          List.map_filter (floor_clearance_of K hull_mesh)
            (placed_bottom_points frame_mesh spacing align th x_sign)"
    by (rule frame_placement_floor(1) [OF a])
next
  assume a: "frame_placement K hull_mesh frame_mesh spacing align th x_sign = Inr r"
    and n: "\<forall>p \<in> set (placed_bottom_points frame_mesh spacing align th x_sign).
              floor_clearance_of K hull_mesh p = None"
  have "floor_clearance_samples_mm r = []"
    unfolding frame_placement_floor(1) [OF a] using n by (rule map_filter_all_None)
  with frame_placement_floor(2) [OF a] show "placement_floor_clearance_min_mm r = None" by simp
  with frame_placement_floor(3) [OF a] show "\<not> floor_clearance_pass r" by simp
next
  assume a: "frame_placement K hull_mesh frame_mesh spacing align th x_sign = Inr r"
    and p: "floor_clearance_pass r"
  from frame_placement_floor(3) [OF a] p
  show "\<exists>c. placement_floor_clearance_min_mm r = Some c \<and> floor_clearance_min_mm th \<le> c"
    by (cases "placement_floor_clearance_min_mm r") auto
next
  assume a: "analyze_reference_fit K hull_mesh frame_mesh slot_plug_mesh consts th' locked = Inr rep
        \<and> (\<exists>f \<in> set (frame_checks (fit_measurements rep)). placement_floor_clearance_min_mm f = None)"
  then obtain f where f: "f \<in> set (frame_checks (fit_measurements rep))"
    "placement_floor_clearance_min_mm f = None" by blast
  from a have a': "analyze_reference_fit K hull_mesh frame_mesh slot_plug_mesh consts th' locked = Inr rep"
    by simp
  from a' obtain slot_results frame_results where
    "collect (\<lambda>(x_sign, y_sign).
        measure_slot_geometry K hull_mesh
          (of_int x_sign * the (consts ''REFERENCE_FRAME_SPACING''))
          (of_int y_sign * the (consts ''REFERENCE_PIVOT_Y''))
          (the (consts ''REFERENCE_PIVOT_Z'') - the (consts ''REFERENCE_COORDINATE_RIM_Z'')
             + the (consts ''REFERENCE_MODEL_RIM_Z''))
          (the (consts ''REFERENCE_SLOT_ENTRY_Z'') - the (consts ''REFERENCE_COORDINATE_RIM_Z'')
             + the (consts ''REFERENCE_MODEL_RIM_Z''))
          (the (consts ''REFERENCE_BALL_DIAMETER'') / 2) th') slot_signs = Inr slot_results" and
    ff: "analyze_frame_fit K hull_mesh frame_mesh (the (consts ''REFERENCE_FRAME_SPACING''))
        (the (consts ''REFERENCE_MODEL_RIM_Z'') - the (consts ''REFERENCE_COORDINATE_RIM_Z'')) th'
       = Inr frame_results" and
    "slot_checks (fit_measurements rep) = slot_results" and
    m: "frame_checks (fit_measurements rep) = frame_results" and
    "slot_depth_mm (fit_measurements rep) =
          the (consts ''REFERENCE_SLOT_ENTRY_Z'') - the (consts ''REFERENCE_PIVOT_Z'')" and
    g: "fit_gates rep =
       [(''hull_mesh_watertight'', is_watertight hull_mesh),
        (''reference_constants_locked'', locked),
        (''slot_axis_positions'', list_all axis_pass slot_results),
        (''slot_depth'',
           \<bar>the (consts ''REFERENCE_SLOT_ENTRY_Z'') - the (consts ''REFERENCE_PIVOT_Z'')
              - slot_depth_target_mm th'\<bar> \<le> slot_depth_tolerance_mm th'),
        (''slot_insertion_corridor'', list_all corridor_pass slot_results),
        (''frame_interference'', list_all interference_pass frame_results),
        (''frame_floor_clearance'', list_all floor_clearance_pass frame_results)]" and
    p: "fit_pass rep = list_all snd (fit_gates rep)"
    by (rule analyze_reference_fit_cases)
  from analyze_frame_fit_floor [OF ff] f m have "\<not> floor_clearance_pass f" by simp
  with f(1) m have "\<not> list_all floor_clearance_pass frame_results"
    by (auto simp: list_all_iff)
  then show "\<not> fit_pass rep" unfolding p g by simp
qed

theorem C10_floor_fails_closed_witness:
  "\<exists>r. frame_placement slab_kernel unit_mesh unit_mesh 16 (- 100) narrow_thresholds 1 = Inr r
     \<and> floor_clearance_samples_mm r = []
     \<and> placement_floor_clearance_min_mm r = None
     \<and> \<not> floor_clearance_pass r"
proof -
  have v: "vertices unit_mesh \<noteq> []" by (simp add: unit_mesh_def)
  from frame_placement_returns [OF v] obtain r where
    e: "frame_placement slab_kernel unit_mesh unit_mesh 16 (- 100) narrow_thresholds 1 = Inr r"
    by blast
  have b: "placed_bottom_points unit_mesh 16 (- 100) narrow_thresholds 1 = [(16, 0, - 83)]"
    by (simp add: placed_bottom_points_def unit_mesh_def translate_def px_def py_def pz_def
        narrow_thresholds_def default_thresholds_def)
  have h: "\<forall>h \<in> set (intersects_location slab_kernel unit_mesh
                         (translate (0, 0, - (1 / 10000)) (16, 0, - 83)) (0, 0, - 1)).
             \<not> pz h < pz (16, 0, - 83) - 1 / 1000000"
    by (simp add: slab_kernel_def translate_def px_def py_def pz_def)
  note c = C10_floor_fails_closed [of slab_kernel unit_mesh unit_mesh 16 "- 100" narrow_thresholds 1 r]
  from c h have n: "floor_clearance_of slab_kernel unit_mesh (16, 0, - 83) = None" by blast
  from c e have s: "floor_clearance_samples_mm r =
      List.map_filter (floor_clearance_of slab_kernel unit_mesh)
        (placed_bottom_points unit_mesh 16 (- 100) narrow_thresholds 1)" by blast
  have s': "floor_clearance_samples_mm r = []"
    unfolding s b using n by (simp add: List.map_filter_simps)
  from c e b n have "placement_floor_clearance_min_mm r = None \<and> \<not> floor_clearance_pass r"
    by simp
  with e s' show ?thesis by blast
qed

subsection \<open>Kinematic angle sampling\<close>

lemma sampled_angles_0_10_4: "sampled_angles 0 10 4 = [0, 4, 8, 10]"
  by (simp add: sampled_angles_def round6_def py_round_def Let_def upt_rec)

lemma sampled_angles_0_10_3: "sampled_angles 0 10 3 = [0, 3, 6, 9, 10]"
  by (simp add: sampled_angles_def round6_def py_round_def Let_def upt_rec)

text \<open>
  Coverage is not monotonic in the step alone: over the same range 0 to 10, the finer
  step 3 drops the angles 4 and 8 that step 4 samples.
\<close>

theorem C8_coverage_counterexample:
  "(0::real) \<le> 0 \<and> (10::real) \<le> 10 \<and> (3::real) \<le> 4
   \<and> \<not> set (sampled_angles 0 10 4) \<subseteq> set (sampled_angles 0 10 3)"
  by (simp add: sampled_angles_0_10_4 sampled_angles_0_10_3)

lemma sampled_angles_grid_mem:
  assumes "0 < step" "lo \<le> hi" "lo + step * of_nat n \<le> hi"
  shows "round6 (lo + step * of_nat n) \<in> set (sampled_angles lo hi step)"
proof -
  have "of_nat n \<le> (hi - lo) / step"
    using assms(1,3) by (simp add: pos_le_divide_eq mult.commute)
  then have "int n \<le> \<lfloor>(hi - lo) / step\<rfloor>"
    by (simp add: le_floor_iff)
  then have n: "n < nat (\<lfloor>(hi - lo) / step\<rfloor> + 1)" by linarith
  have "lo + step * of_nat n \<in> set (map (\<lambda>i. lo + step * of_nat i) [0 ..< nat (\<lfloor>(hi - lo) / step\<rfloor> + 1)])"
    using n by auto
  then show ?thesis
    using assms(1,2) by (auto simp: sampled_angles_def Let_def)
qed

lemma sampled_angles_elems:
  assumes "0 < step" "lo \<le> hi" "x \<in> set (sampled_angles lo hi step)"
  shows "(\<exists>i. x = round6 (lo + step * of_nat i) \<and> lo + step * of_nat i \<le> hi) \<or> x = round6 hi"
proof -
  let ?c = "nat (\<lfloor>(hi - lo) / step\<rfloor> + 1)"
  let ?vals = "map (\<lambda>i. lo + step * of_nat i) [0 ..< ?c]"
  from assms have "x \<in> round6 ` set ?vals \<or> x = round6 hi"
    by (auto simp: sampled_angles_def Let_def split: if_splits)
  moreover have "lo + step * of_nat i \<le> hi" if "i < ?c" for i
  proof -
    from that have "int i \<le> \<lfloor>(hi - lo) / step\<rfloor>" by linarith
    then have "of_nat i \<le> (hi - lo) / step" by (simp add: le_floor_iff)
    then show ?thesis using assms(1) by (simp add: pos_le_divide_eq mult.commute)
  qed
  ultimately show ?thesis by auto
qed

text \<open>
  C8, amended. Run A is aligned with run B when B's step is positive, A's minimum lies on
  B's grid (\<open>min_A = min_B + j * step_B\<close>), A's step is a positive whole multiple of B's
  step, A's range is not empty (\<open>min_A \<le> max_A\<close>) and A's maximum is at most B's. For an
  aligned pair, every angle sampled under A is sampled under B, provided B samples A's
  maximum.
\<close>

theorem C8_aligned_coverage:
  assumes "0 < step_b"
    and "min_a \<le> max_a" and "max_a \<le> max_b"
    and "min_a = min_b + of_nat j * step_b"
    and "step_a = of_nat k * step_b" and "0 < k"
    and "round6 max_a \<in> set (sampled_angles min_b max_b step_b)"
  shows "set (sampled_angles min_a max_a step_a) \<subseteq> set (sampled_angles min_b max_b step_b)"
proof
  fix x
  assume x: "x \<in> set (sampled_angles min_a max_a step_a)"
  have sa: "0 < step_a" using assms(1,5,6) by simp
  have jb: "0 \<le> of_nat j * step_b" using assms(1) by simp
  have lob: "min_b \<le> max_b" using assms(2,3,4) jb by linarith
  from sampled_angles_elems [OF sa assms(2) x]
  show "x \<in> set (sampled_angles min_b max_b step_b)"
  proof
    assume "\<exists>i. x = round6 (min_a + step_a * of_nat i) \<and> min_a + step_a * of_nat i \<le> max_a"
    then obtain i where xi: "x = round6 (min_a + step_a * of_nat i)"
      and le: "min_a + step_a * of_nat i \<le> max_a" by blast
    have eq: "min_a + step_a * of_nat i = min_b + step_b * of_nat (j + k * i)"
      unfolding assms(4,5) by (simp add: algebra_simps)
    have "min_b + step_b * of_nat (j + k * i) \<le> max_b"
      using le assms(3) unfolding eq by linarith
    from sampled_angles_grid_mem [OF assms(1) lob this] show ?thesis
      unfolding xi eq .
  next
    assume "x = round6 max_a"
    with assms(7) show ?thesis by simp
  qed
qed

lemma sampled_angles_m2_12_2: "sampled_angles (- 2) 12 2 = [- 2, 0, 2, 4, 6, 8, 10, 12]"
  by (simp add: sampled_angles_def round6_def py_round_def Let_def upt_rec)

theorem C8_aligned_coverage_witness:
  "set (sampled_angles 0 10 4) \<subseteq> set (sampled_angles (- 2) 12 2)"
proof -
  have r: "round6 10 \<in> set (sampled_angles (- 2) 12 2)"
    by (simp add: sampled_angles_m2_12_2 round6_def py_round_def)
  show ?thesis
    using C8_aligned_coverage [of 2 0 10 12 "- 2" 1 4 2] r by simp
qed

subsection \<open>Robustness sweep\<close>

lemma summary_gate_triple:
  assumes "reference_fit_scenario_summary parse name report = Inr sc"
  shows "required_gate_pass sc = required_gate_triple (scenario_gates sc)"
proof (cases "case report of Some d \<Rightarrow> dict_get d ''measurements'' (JDict []) | None \<Rightarrow> JDict []")
  case (JDict m)
  with assms have "sc =
     \<lparr>scenario_name = name,
      report_present = (report \<noteq> None),
      report_pass = (case report of Some d \<Rightarrow> truthy (dict_get d ''pass'' JNull) | None \<Rightarrow> False),
      scenario_gates =
        (case (case report of Some d \<Rightarrow> dict_get d ''gates'' (JDict []) | None \<Rightarrow> JDict []) of
           JDict g \<Rightarrow> g | _ \<Rightarrow> []),
      scenario_key_measurements =
        Some \<lparr>km_corridor_min_radial_clearance_mm =
                 metric_min parse (dict_get m ''slot_checks'' (JList []))
                   ''corridor_min_radial_clearance_mm'',
               km_frame_min_gap_mm =
                 metric_min parse (dict_get m ''frame_checks'' (JList [])) ''min_gap_mm'',
               km_frame_max_penetration_mm =
                 metric_max parse (dict_get m ''frame_checks'' (JList [])) ''max_penetration_mm'',
               km_overall_floor_clearance_min_mm =
                 dict_get m ''overall_floor_clearance_min_mm'' JNull\<rparr>,
      required_gate_pass =
        required_gate_triple
          (case (case report of Some d \<Rightarrow> dict_get d ''gates'' (JDict []) | None \<Rightarrow> JDict []) of
             JDict g \<Rightarrow> g | _ \<Rightarrow> []),
      perturbation_overrides = None\<rparr>"
    unfolding reference_fit_scenario_summary_def required_gate_triple_def Let_def by simp
  then show ?thesis by simp
qed (use assms in \<open>simp_all add: reference_fit_scenario_summary_def Let_def\<close>)

lemma skipped_gate_triple:
  "required_gate_pass (skipped_scenario name overrides)
     = required_gate_triple (scenario_gates (skipped_scenario name overrides))"
  by (simp add: skipped_scenario_def required_gate_triple_def dict_get_def)

lemma perturbation_gate_triple:
  assumes "sweep_perturbation env openscad_bin base_frame base_plug preset perturbation = Inr sc"
  shows "required_gate_pass sc = required_gate_triple (scenario_gates sc)"
proof (cases "openscad_bin = None \<or> base_frame = None \<or> base_plug = None
              \<or> \<not> cached_openscad_export env (CachedHullStl (preset @ ''__'' @ fst perturbation))")
  case True
  with assms have "sc = skipped_scenario (preset @ '':perturb:'' @ fst perturbation) (snd perturbation)"
    unfolding sweep_perturbation_def Let_def by (auto split: if_splits)
  then show ?thesis by (simp add: skipped_gate_triple)
next
  case False
  with assms obtain sc0 where
    s: "reference_fit_scenario_summary (parse_float env) (preset @ '':perturb:'' @ fst perturbation)
          (run_reference_fit_command env (SweepReport (preset @ ''__'' @ fst perturbation))
             (FromStls (CachedHullStl (preset @ ''__'' @ fst perturbation))
                (the base_frame) (the base_plug))) = Inr sc0" and
    e: "sc = sc0\<lparr>perturbation_overrides := Some (snd perturbation)\<rparr>"
    unfolding sweep_perturbation_def Let_def by (auto split: sum.splits)
  from summary_gate_triple [OF s] show ?thesis unfolding e by simp
qed

lemma sweep_loop_gate_triple:
  assumes "sweep_presets_loop env openscad_bin base_frame base_plug perturbations presets
             scenarios errors = Inr (scenarios', errors')"
    and "\<forall>sc \<in> set scenarios. required_gate_pass sc = required_gate_triple (scenario_gates sc)"
  shows "\<forall>sc \<in> set scenarios'. required_gate_pass sc = required_gate_triple (scenario_gates sc)"
  using assms
proof (induction presets arbitrary: scenarios errors)
  case Nil
  then show ?case by simp
next
  case (Cons preset rest)
  show ?case
  proof (cases "path_exists env (PresetFile preset)")
    case False
    with Cons.prems(1) have
      "sweep_presets_loop env openscad_bin base_frame base_plug perturbations rest scenarios
         (errors @ [''Preset missing for sweep scenario generation: '' @ preset])
       = Inr (scenarios', errors')" by simp
    from Cons.IH [OF this Cons.prems(2)] show ?thesis .
  next
    case True
    with Cons.prems(1) obtain report baseline_scenario perturbed where
      b: "reference_fit_scenario_summary (parse_float env) (preset @ '':baseline'') report
            = Inr baseline_scenario" and
      p: "collect (sweep_perturbation env openscad_bin base_frame base_plug preset) perturbations
            = Inr perturbed" and
      l: "sweep_presets_loop env openscad_bin base_frame base_plug perturbations rest
            (scenarios @ [baseline_scenario] @ perturbed) errors = Inr (scenarios', errors')"
      by (auto simp: Let_def split: sum.splits)
    have "\<forall>sc \<in> set perturbed. required_gate_pass sc = required_gate_triple (scenario_gates sc)"
      using collect_set [OF p] perturbation_gate_triple by blast
    with summary_gate_triple [OF b] Cons.prems(2)
    have "\<forall>sc \<in> set (scenarios @ [baseline_scenario] @ perturbed).
            required_gate_pass sc = required_gate_triple (scenario_gates sc)"
      by auto
    from Cons.IH [OF l this] show ?thesis .
  qed
qed

text \<open>
  C6. Whenever the robustness sweep returns, its overall pass is true exactly when the
  recorded scenario list is non-empty, the required-gate triple (slot insertion corridor,
  frame interference, frame floor clearance) of every recorded scenario is true, and no
  error was recorded during the sweep.
\<close>

theorem C6_sweep_pass:
  assumes "robustness_sweep env openscad_bin baseline_reference_report sweep_presets perturbations
             = Inr res"
  shows "sweep_pass res \<longleftrightarrow>
           sweep_scenarios res \<noteq> []
         \<and> (\<forall>sc \<in> set (sweep_scenarios res). required_gate_triple (scenario_gates sc))
         \<and> sweep_errors res = []"
proof -
  obtain errors0 base_frame base_plug where
    st: "sweep_static_stls env openscad_bin baseline_reference_report
           = (errors0, base_frame, base_plug)"
    by (cases "sweep_static_stls env openscad_bin baseline_reference_report") auto
  from assms obtain scenarios errors where
    l: "sweep_presets_loop env openscad_bin base_frame base_plug perturbations sweep_presets
          [] errors0 = Inr (scenarios, errors)" and
    r: "res = \<lparr>sweep_scenarios = scenarios, scenario_count = length scenarios,
               sweep_pass = (scenarios \<noteq> [] \<and> list_all required_gate_pass scenarios \<and> errors = []),
               sweep_errors = errors\<rparr>"
    by (auto simp: robustness_sweep_def st Let_def split: sum.splits)
  from sweep_loop_gate_triple [OF l] have
    "\<forall>sc \<in> set scenarios. required_gate_pass sc = required_gate_triple (scenario_gates sc)"
    by simp
  then show ?thesis unfolding r by (auto simp: list_all_iff)
qed

lemma passing_env_fields:
  "path_exists passing_env p = True"
  "run_openscad_export passing_env p = True"
  "parse_float passing_env = (\<lambda>s. None)"
  "run_reference_fit_command passing_env out inputs =
     Some [(''pass'', JBool True),
                 (''gates'',
                    JDict [(''slot_insertion_corridor'', JBool True),
                           (''frame_interference'', JBool True),
                           (''frame_floor_clearance'', JBool True)]),
                 (''measurements'', JDict [])]"
  by (simp_all add: passing_env_def)

lemma passing_static_stls: "sweep_static_stls passing_env (Some ''openscad'') None = ([], Some CachedFrameStl, Some CachedSlotPlugStl)"
  by (simp add: sweep_static_stls_def cached_openscad_export_def passing_env_fields Let_def)

lemma passing_summary:
  "\<exists>sc. reference_fit_scenario_summary (\<lambda>s. None) name
          (Some [(''pass'', JBool True),
                 (''gates'',
                    JDict [(''slot_insertion_corridor'', JBool True),
                           (''frame_interference'', JBool True),
                           (''frame_floor_clearance'', JBool True)]),
                 (''measurements'', JDict [])]) = Inr sc
      \<and> required_gate_triple (scenario_gates sc)"
  by (simp add: reference_fit_scenario_summary_def required_gate_triple_def dict_get_def Let_def)

lemma passing_loop:
  "\<exists>sc. sweep_presets_loop passing_env (Some ''openscad'') (Some CachedFrameStl)
          (Some CachedSlotPlugStl) [] [''gcsc_default''] [] [] = Inr ([sc], [])
      \<and> required_gate_triple (scenario_gates sc)"
  using passing_summary [of "''gcsc_default'' @ '':baseline''"]
  by (auto simp add: passing_env_fields cached_openscad_export_def Let_def simp del: append.simps)

lemma passing_sweep_eval:
  "\<exists>res sc. robustness_sweep passing_env (Some ''openscad'') None [''gcsc_default''] [] = Inr res
     \<and> sweep_errors res = []
     \<and> sweep_scenarios res = [sc]
     \<and> required_gate_triple (scenario_gates sc)"
proof -
  from passing_loop obtain sc where
    l: "sweep_presets_loop passing_env (Some ''openscad'') (Some CachedFrameStl)
          (Some CachedSlotPlugStl) [] [''gcsc_default''] [] [] = Inr ([sc], [])" and
    g: "required_gate_triple (scenario_gates sc)"
    by (elim exE conjE)
  show ?thesis
    by (simp add: robustness_sweep_def passing_static_stls l g del: sweep_presets_loop.simps)
qed

theorem C6_sweep_pass_witness:
  "\<exists>res. robustness_sweep passing_env (Some ''openscad'') None [''gcsc_default''] [] = Inr res
     \<and> sweep_pass res"
proof -
  from passing_sweep_eval obtain res sc where
    e: "robustness_sweep passing_env (Some ''openscad'') None [''gcsc_default''] [] = Inr res" and
    n: "sweep_errors res = []" and
    s: "sweep_scenarios res = [sc]" and
    g: "required_gate_triple (scenario_gates sc)"
    by (elim exE conjE)
  from C6_sweep_pass [OF e] n s g have "sweep_pass res" by simp
  with e show ?thesis by (intro exI conjI)
qed

subsection \<open>Golden signature override\<close>

text \<open>
  The override does not reach a missing or invalid signature file: every sweep preset is
  reported missing and raw\_pass is false, yet with the override enabled the verdict
  stays a failure and no override\_used is reported.
\<close>

theorem C4_override_counterexample:
  "missing_presets (golden_signature_validation (\<lambda>s. None) True None [] None [''gcsc_default'']) \<noteq> []
   \<and> \<not> raw_pass (golden_signature_validation (\<lambda>s. None) True None [] None [''gcsc_default''])
   \<and> allow_drift_override (golden_signature_validation (\<lambda>s. None) True None [] None [''gcsc_default''])
   \<and> \<not> sig_pass (golden_signature_validation (\<lambda>s. None) True None [] None [''gcsc_default''])
   \<and> override_used (golden_signature_validation (\<lambda>s. None) True None [] None [''gcsc_default''])
       \<noteq> Some True"
  by (simp add: golden_signature_validation_def resolve_signature_drift_override_def Let_def)

lemma golden_loaded_fields:
  "raw_pass (golden_signature_validation parse allow env_var observed (Some expected) presets)
     \<longleftrightarrow> missing_presets (golden_signature_validation parse allow env_var observed (Some expected) presets) = []
         \<and> sig_drifts (golden_signature_validation parse allow env_var observed (Some expected) presets) = []"
  "sig_pass (golden_signature_validation parse allow env_var observed (Some expected) presets)
     \<longleftrightarrow> raw_pass (golden_signature_validation parse allow env_var observed (Some expected) presets)
         \<or> allow \<or> bool_from_env env_var"
  "override_used (golden_signature_validation parse allow env_var observed (Some expected) presets)
     = Some ((allow \<or> bool_from_env env_var)
             \<and> \<not> raw_pass (golden_signature_validation parse allow env_var observed (Some expected) presets))"
  "sig_drifts (golden_signature_validation parse allow env_var observed (Some expected) presets)
     = snd (signature_presets_loop parse observed
              (case dict_get expected ''presets'' (JDict []) of JDict e \<Rightarrow> e | _ \<Rightarrow> []) presets [] [])"
  "missing_presets (golden_signature_validation parse allow env_var observed (Some expected) presets)
     = fst (signature_presets_loop parse observed
              (case dict_get expected ''presets'' (JDict []) of JDict e \<Rightarrow> e | _ \<Rightarrow> []) presets [] [])"
  by (simp_all add: golden_signature_validation_def resolve_signature_drift_override_def Let_def
      split: prod.splits)

lemma golden_reported_fields:
  "allow_drift_override (golden_signature_validation parse allow env_var observed expected presets)
     \<longleftrightarrow> allow \<or> bool_from_env env_var"
  "sig_override_source (golden_signature_validation parse allow env_var observed expected presets)
     = (if allow then ''cli'' else if bool_from_env env_var then ''env'' else ''none'')"
  by (simp_all add: golden_signature_validation_def resolve_signature_drift_override_def Let_def
      split: prod.splits option.splits)

lemma golden_missing_file_fields:
  "\<not> sig_pass (golden_signature_validation parse allow env_var observed None presets)"
  "\<not> raw_pass (golden_signature_validation parse allow env_var observed None presets)"
  "override_used (golden_signature_validation parse allow env_var observed None presets) = None"
  "missing_presets (golden_signature_validation parse allow env_var observed None presets)
     = presets"
  by (simp_all add: golden_signature_validation_def Let_def)

text \<open>
  C4, amended. When the stored signature file loads as a JSON object: raw\_pass is false
  exactly when a drift or a missing preset was detected; if it is false, enabling the
  override (command line flag or environment variable) yields pass = true with
  raw\_pass = false and override\_used = true, while the identical observations with the
  override disabled (flag off, variable unset or not a truth value) yield pass = false
  with the same drifts and missing presets. On every
  path the report carries raw\_pass, the override state and the override source as
  separate fields. When the signature file is missing or invalid, pass and raw\_pass are
  false whatever the override.
\<close>

theorem C4_override_policy:
  assumes "allow \<or> bool_from_env env_var"
    and "\<not> bool_from_env env_off"
    and "\<not> raw_pass (golden_signature_validation parse allow env_var observed (Some expected) presets)"
  shows "sig_pass (golden_signature_validation parse allow env_var observed (Some expected) presets)
    \<and> override_used (golden_signature_validation parse allow env_var observed (Some expected) presets)
        = Some True
    \<and> allow_drift_override
        (golden_signature_validation parse allow env_var observed (Some expected) presets)
    \<and> sig_override_source
        (golden_signature_validation parse allow env_var observed (Some expected) presets)
        = (if allow then ''cli'' else ''env'')
    \<and> (sig_drifts (golden_signature_validation parse allow env_var observed (Some expected) presets) \<noteq> []
        \<or> missing_presets
             (golden_signature_validation parse allow env_var observed (Some expected) presets) \<noteq> [])
    \<and> \<not> sig_pass (golden_signature_validation parse False env_off observed (Some expected) presets)
    \<and> \<not> raw_pass (golden_signature_validation parse False env_off observed (Some expected) presets)
    \<and> override_used (golden_signature_validation parse False env_off observed (Some expected) presets)
        = Some False
    \<and> \<not> allow_drift_override
          (golden_signature_validation parse False env_off observed (Some expected) presets)
    \<and> sig_override_source
        (golden_signature_validation parse False env_off observed (Some expected) presets) = ''none''
    \<and> sig_drifts (golden_signature_validation parse False env_off observed (Some expected) presets)
        = sig_drifts (golden_signature_validation parse allow env_var observed (Some expected) presets)
    \<and> missing_presets (golden_signature_validation parse False env_off observed (Some expected) presets)
        = missing_presets
            (golden_signature_validation parse allow env_var observed (Some expected) presets)
    \<and> \<not> sig_pass (golden_signature_validation parse allow env_var observed None presets)
    \<and> \<not> raw_pass (golden_signature_validation parse allow env_var observed None presets)
    \<and> allow_drift_override (golden_signature_validation parse allow env_var observed None presets)"
proof -
  have r: "raw_pass (golden_signature_validation parse False env_off observed (Some expected) presets)
        = raw_pass (golden_signature_validation parse allow env_var observed (Some expected) presets)"
    unfolding golden_loaded_fields(1) golden_loaded_fields(4,5) ..
  show ?thesis
    using assms r
    by (simp add: golden_loaded_fields(2,3) golden_reported_fields golden_missing_file_fields)
      (auto simp: golden_loaded_fields(1,4,5))
qed

lemma drifting_raw_fail:
  "\<not> raw_pass (golden_signature_validation (\<lambda>s. None) False env drifting_observed
                  (Some stored_bands) [''gcsc_default''])"
  by (simp add: golden_loaded_fields(1,4) drifting_observed_def stored_bands_def dict_get_def
      metric_drift_def py_float_def List.map_filter_simps Let_def)

theorem C4_override_policy_witness:
  "sig_pass (golden_signature_validation (\<lambda>s. None) False (Some ''1'') drifting_observed
              (Some stored_bands) [''gcsc_default''])
   \<and> \<not> raw_pass (golden_signature_validation (\<lambda>s. None) False (Some ''1'') drifting_observed
              (Some stored_bands) [''gcsc_default''])
   \<and> override_used (golden_signature_validation (\<lambda>s. None) False (Some ''1'') drifting_observed
              (Some stored_bands) [''gcsc_default'']) = Some True
   \<and> sig_override_source (golden_signature_validation (\<lambda>s. None) False (Some ''1'')
              drifting_observed (Some stored_bands) [''gcsc_default'']) = ''env''
   \<and> \<not> sig_pass (golden_signature_validation (\<lambda>s. None) False None drifting_observed
              (Some stored_bands) [''gcsc_default''])"
proof -
  have "bool_from_env (Some ''1'')" by code_simp
  then have e: "False \<or> bool_from_env (Some ''1'')" by simp
  have "\<not> bool_from_env None" by code_simp
  from C4_override_policy [OF e this drifting_raw_fail] drifting_raw_fail [of "Some ''1''"]
  show ?thesis by simp
qed

subsection \<open>Manufacturability verdict\<close>

lemma manufacturability_gates_shape:
  assumes "manufacturability_gates args params probes hull_mesh = Inr res"
  shows "man_error res = None
    \<and> (\<exists>a b c d e.
         man_gates res =
           [(''minimum_wall_thickness'', a), (''sampled_local_wall_thickness'', b),
            (''recess_skin_thickness'', c), (''overhang_risk'', d),
            (''stable_contact_footprint'', e)]
         \<and> man_pass res = (a \<and> b \<and> c \<and> d \<and> e))"
proof (cases "vertices hull_mesh = []")
  case True
  then have "manufacturability_gates args params probes hull_mesh = Inl ValueError"
    by (simp add: manufacturability_gates_def np_min_def Let_def)
  with assms show ?thesis by simp
next
  case False
  with assms show ?thesis
    unfolding manufacturability_gates_def Let_def np_min_def by auto
qed

lemma manufacturability_validation_cases:
  assumes "manufacturability_validation env args baseline = Inr res"
  shows "(\<exists>msg. res = manufacturability_failure msg)
       \<or> (\<exists>params probes hull_mesh. manufacturability_gates args params probes hull_mesh = Inr res)"
  using assms unfolding manufacturability_validation_def Let_def
  by (auto split: option.splits json.splits if_splits sum.splits)

lemma gates_five:
  "gate_holds [(''minimum_wall_thickness'', a), (''sampled_local_wall_thickness'', b),
            (''recess_skin_thickness'', c), (''overhang_risk'', d),
            (''stable_contact_footprint'', e)] ''minimum_wall_thickness'' = a"
  "gate_holds [(''minimum_wall_thickness'', a), (''sampled_local_wall_thickness'', b),
            (''recess_skin_thickness'', c), (''overhang_risk'', d),
            (''stable_contact_footprint'', e)] ''sampled_local_wall_thickness'' = b"
  "gate_holds [(''minimum_wall_thickness'', a), (''sampled_local_wall_thickness'', b),
            (''recess_skin_thickness'', c), (''overhang_risk'', d),
            (''stable_contact_footprint'', e)] ''recess_skin_thickness'' = c"
  "gate_holds [(''minimum_wall_thickness'', a), (''sampled_local_wall_thickness'', b),
            (''recess_skin_thickness'', c), (''overhang_risk'', d),
            (''stable_contact_footprint'', e)] ''overhang_risk'' = d"
  "gate_holds [(''minimum_wall_thickness'', a), (''sampled_local_wall_thickness'', b),
            (''recess_skin_thickness'', c), (''overhang_risk'', d),
            (''stable_contact_footprint'', e)] ''stable_contact_footprint'' = e"
  by (simp_all add: gate_holds_def)

lemma manufacturability_gates_returns:
  assumes "vertices hull_mesh \<noteq> []"
  shows "\<exists>res. manufacturability_gates args params probes hull_mesh = Inr res
           \<and> man_error res = None"
  using assms by (simp add: manufacturability_gates_def np_min_def Let_def)

lemma validation_without_baseline:
  "fails_closed (manufacturability_validation env args None)"
  by (simp add: manufacturability_validation_def fails_closed_def manufacturability_failure_def)

lemma validation_without_inputs:
  assumes "\<forall>inputs. dict_get report ''inputs'' (JDict []) \<noteq> JDict inputs"
  shows "fails_closed (manufacturability_validation env args (Some report))"
  using assms
  by (simp add: manufacturability_validation_def fails_closed_def manufacturability_failure_def
      split: json.splits)

lemma validation_without_preset:
  assumes "dict_get report ''inputs'' (JDict []) = JDict inputs"
    and "\<not> preset_exists env (dict_get inputs ''preset'' (JStr ''gcsc_default''))"
  shows "fails_closed (manufacturability_validation env args (Some report))"
  using assms
  by (simp add: manufacturability_validation_def fails_closed_def manufacturability_failure_def)

lemma validation_without_hull_path:
  assumes "dict_get report ''inputs'' (JDict []) = JDict inputs"
    and "\<forall>path. dict_get inputs ''hull_stl'' JNull \<noteq> JStr path"
  shows "fails_closed (manufacturability_validation env args (Some report))"
  using assms
  by (simp add: manufacturability_validation_def fails_closed_def manufacturability_failure_def
      Let_def split: json.splits)

lemma validation_without_hull_mesh:
  assumes "dict_get report ''inputs'' (JDict []) = JDict inputs"
    and "dict_get inputs ''hull_stl'' JNull = JStr path"
    and "load_hull_mesh env path = Inl e"
  shows "fails_closed (manufacturability_validation env args (Some report))"
  using assms
  by (simp add: manufacturability_validation_def fails_closed_def manufacturability_failure_def
      Let_def)

lemma validation_with_inputs:
  assumes "dict_get report ''inputs'' (JDict []) = JDict inputs"
    and "preset_exists env (dict_get inputs ''preset'' (JStr ''gcsc_default''))"
    and "dict_get inputs ''hull_stl'' JNull = JStr path"
    and "load_hull_mesh env path = Inr hull_mesh"
  shows "manufacturability_validation env args (Some report) =
           manufacturability_gates args
             (parse_preset_parameters env (dict_get inputs ''preset'' (JStr ''gcsc_default'')))
             (sample_local_thickness_probes env hull_mesh) hull_mesh"
  using assms by (simp add: manufacturability_validation_def Let_def)

lemma validation_report:
  assumes "manufacturability_validation env args baseline = Inr res"
  shows "(man_error res \<noteq> None \<longrightarrow> man_gates res = [] \<and> \<not> man_pass res)
    \<and> (man_error res = None \<longrightarrow>
         map fst (man_gates res) =
           [''minimum_wall_thickness'', ''sampled_local_wall_thickness'',
            ''recess_skin_thickness'', ''overhang_risk'', ''stable_contact_footprint'']
       \<and> (man_pass res \<longleftrightarrow>
             gate_holds (man_gates res) ''minimum_wall_thickness''
           \<and> gate_holds (man_gates res) ''sampled_local_wall_thickness''
           \<and> gate_holds (man_gates res) ''recess_skin_thickness''
           \<and> gate_holds (man_gates res) ''overhang_risk''
           \<and> gate_holds (man_gates res) ''stable_contact_footprint''))"
proof -
  from manufacturability_validation_cases [OF assms] show ?thesis
  proof
    assume "\<exists>msg. res = manufacturability_failure msg"
    then show ?thesis by (auto simp: manufacturability_failure_def)
  next
    assume "\<exists>params probes hull_mesh.
              manufacturability_gates args params probes hull_mesh = Inr res"
    then obtain params probes hull_mesh where
      "manufacturability_gates args params probes hull_mesh = Inr res" by (elim exE)
    from manufacturability_gates_shape [OF this] obtain a b c d e where
      n: "man_error res = None" and
      g: "man_gates res =
           [(''minimum_wall_thickness'', a), (''sampled_local_wall_thickness'', b),
            (''recess_skin_thickness'', c), (''overhang_risk'', d),
            (''stable_contact_footprint'', e)]" and
      p: "man_pass res = (a \<and> b \<and> c \<and> d \<and> e)"
      by (elim exE conjE)
    show ?thesis
      unfolding g gates_five p using n by simp
  qed
qed

text \<open>
  C7, amended. When the baseline report, the preset file or the hull mesh is unavailable
  (no report, a report without its inputs or its hull path, a preset file that does not
  exist, a hull file that does not load), the validation returns a report with an error,
  no gates and pass false. When all are available and the hull has a vertex, it returns a
  report without error. Every report it returns either carries an error, with no gates
  and pass false, or carries five gates, and then pass is true exactly when all five
  hold: the four named checks (declared minimum wall thickness, sampled local thickness,
  overhang risk, contact footprint stability) and the recess skin thickness gate.
\<close>

theorem C7_manufacturability_pass:
  "(baseline = None \<longrightarrow> fails_closed (manufacturability_validation env args baseline))
 \<and> (\<forall>report. baseline = Some report \<longrightarrow>
        ((\<forall>inputs. dict_get report ''inputs'' (JDict []) \<noteq> JDict inputs) \<longrightarrow>
           fails_closed (manufacturability_validation env args baseline))
      \<and> (\<forall>inputs. dict_get report ''inputs'' (JDict []) = JDict inputs \<longrightarrow>
            (\<not> preset_exists env (dict_get inputs ''preset'' (JStr ''gcsc_default'')) \<longrightarrow>
               fails_closed (manufacturability_validation env args baseline))
          \<and> ((\<forall>path. dict_get inputs ''hull_stl'' JNull \<noteq> JStr path) \<longrightarrow>
               fails_closed (manufacturability_validation env args baseline))
          \<and> (\<forall>path. dict_get inputs ''hull_stl'' JNull = JStr path \<longrightarrow>
                (\<forall>e. load_hull_mesh env path = Inl e \<longrightarrow>
                   fails_closed (manufacturability_validation env args baseline))
              \<and> (\<forall>hull_mesh.
                    load_hull_mesh env path = Inr hull_mesh
                    \<and> preset_exists env (dict_get inputs ''preset'' (JStr ''gcsc_default''))
                    \<and> vertices hull_mesh \<noteq> [] \<longrightarrow>
                    (\<exists>res. manufacturability_validation env args baseline = Inr res
                        \<and> man_error res = None)))))
 \<and> (\<forall>res. manufacturability_validation env args baseline = Inr res \<longrightarrow>
        (man_error res \<noteq> None \<longrightarrow> man_gates res = [] \<and> \<not> man_pass res)
      \<and> (man_error res = None \<longrightarrow>
           map fst (man_gates res) =
             [''minimum_wall_thickness'', ''sampled_local_wall_thickness'',
              ''recess_skin_thickness'', ''overhang_risk'', ''stable_contact_footprint'']
         \<and> (man_pass res \<longleftrightarrow>
               gate_holds (man_gates res) ''minimum_wall_thickness''
             \<and> gate_holds (man_gates res) ''sampled_local_wall_thickness''
             \<and> gate_holds (man_gates res) ''recess_skin_thickness''
             \<and> gate_holds (man_gates res) ''overhang_risk''
             \<and> gate_holds (man_gates res) ''stable_contact_footprint'')))"
proof (intro conjI allI impI)
  assume "baseline = None"
  then show "fails_closed (manufacturability_validation env args baseline)"
    by (simp add: validation_without_baseline)
next
  fix report
  assume "baseline = Some report"
    and "\<forall>inputs. dict_get report ''inputs'' (JDict []) \<noteq> JDict inputs"
  then show "fails_closed (manufacturability_validation env args baseline)"
    by (simp add: validation_without_inputs)
next
  fix report inputs
  assume "baseline = Some report"
    and "dict_get report ''inputs'' (JDict []) = JDict inputs"
    and "\<not> preset_exists env (dict_get inputs ''preset'' (JStr ''gcsc_default''))"
  then show "fails_closed (manufacturability_validation env args baseline)"
    by (simp add: validation_without_preset)
next
  fix report inputs
  assume "baseline = Some report"
    and "dict_get report ''inputs'' (JDict []) = JDict inputs"
    and "\<forall>path. dict_get inputs ''hull_stl'' JNull \<noteq> JStr path"
  then show "fails_closed (manufacturability_validation env args baseline)"
    by (simp add: validation_without_hull_path)
next
  fix report inputs path e
  assume "baseline = Some report"
    and "dict_get report ''inputs'' (JDict []) = JDict inputs"
    and "dict_get inputs ''hull_stl'' JNull = JStr path"
    and "load_hull_mesh env path = Inl e"
  then show "fails_closed (manufacturability_validation env args baseline)"
    by (simp add: validation_without_hull_mesh)
next
  fix report inputs path hull_mesh
  assume b: "baseline = Some report"
    and i: "dict_get report ''inputs'' (JDict []) = JDict inputs"
    and h: "dict_get inputs ''hull_stl'' JNull = JStr path"
    and m: "load_hull_mesh env path = Inr hull_mesh
            \<and> preset_exists env (dict_get inputs ''preset'' (JStr ''gcsc_default''))
            \<and> vertices hull_mesh \<noteq> []"
  from m have l: "load_hull_mesh env path = Inr hull_mesh"
    and p: "preset_exists env (dict_get inputs ''preset'' (JStr ''gcsc_default''))"
    and v: "vertices hull_mesh \<noteq> []" by simp_all
  show "\<exists>res. manufacturability_validation env args baseline = Inr res \<and> man_error res = None"
    unfolding b validation_with_inputs [OF i p h l]
    by (rule manufacturability_gates_returns [OF v])
next
  fix res
  assume r: "manufacturability_validation env args baseline = Inr res"
  {
    assume "man_error res \<noteq> None"
    with validation_report [OF r] show "man_gates res = []" by simp
  next
    assume "man_error res \<noteq> None"
    with validation_report [OF r] show "\<not> man_pass res" by simp
  next
    assume "man_error res = None"
    with validation_report [OF r] show "map fst (man_gates res) =
             [''minimum_wall_thickness'', ''sampled_local_wall_thickness'',
              ''recess_skin_thickness'', ''overhang_risk'', ''stable_contact_footprint'']"
      by simp
  next
    assume "man_error res = None"
    with validation_report [OF r] show "man_pass res \<longleftrightarrow>
               gate_holds (man_gates res) ''minimum_wall_thickness''
             \<and> gate_holds (man_gates res) ''sampled_local_wall_thickness''
             \<and> gate_holds (man_gates res) ''recess_skin_thickness''
             \<and> gate_holds (man_gates res) ''overhang_risk''
             \<and> gate_holds (man_gates res) ''stable_contact_footprint''"
      by simp
  }
qed

lemma probe_validation_eval:
  "manufacturability_validation (probe_env depth) probe_args (Some probe_report)
     = manufacturability_gates probe_args (recess_params depth)
         \<lparr>probe_status = ''ok'', probe_percentile_mm = JNum (12 / 10)\<rparr> unit_mesh"
  by (simp add: manufacturability_validation_def probe_env_def probe_report_def dict_get_def)

lemma probe_params:
  "get_float (recess_params depth) ''wall_mm'' 0 = 16 / 10"
  "get_float (recess_params depth) ''wall_end_taper_ratio'' 1 = 1"
  "get_float (recess_params depth) ''floor_mm'' 0 = 2"
  "get_float (recess_params depth) ''slot_outer_skin_min_mm'' 0 = 14 / 10"
  "get_float (recess_params depth) ''slot_skin_mm'' 0 = 135 / 100"
  "get_bool (recess_params depth) ''feet_on'' True = True"
  "get_float (recess_params depth) ''foot_recess_depth_mm'' 0 = depth"
  "get_float (recess_params depth) ''foot_recess_skin_mm'' 0 = 0"
  by (simp_all add: get_float_def get_bool_def recess_params_def)

lemma probe_gates_eval:
  "\<exists>res. manufacturability_gates probe_args (recess_params depth)
         \<lparr>probe_status = ''ok'', probe_percentile_mm = JNum (12 / 10)\<rparr> unit_mesh = Inr res
     \<and> man_error res = None
     \<and> man_pass res = list_all snd (man_gates res)
     \<and> man_gates res =
         [(''minimum_wall_thickness'', True), (''sampled_local_wall_thickness'', True),
          (''recess_skin_thickness'',
             (if depth = 0 then 2 else 2 - depth) \<ge> 1 \<and> (if depth = 0 then 2 else 2 - depth) \<ge> 0),
          (''overhang_risk'', True), (''stable_contact_footprint'', True)]"
  by (simp add: manufacturability_gates_def probe_params or_else_def sampled_local_wall_gate_def
      probe_args_def unit_mesh_def np_min_def polygon_area_def pz_def px_def py_def Let_def)

text \<open>
  The four named checks do not decide the verdict: with a foot recess 1.5 deep in a floor
  of 2 all four pass, yet the recess skin gate fails and so does the overall verdict.
\<close>

theorem C7_four_gates_counterexample:
  "\<exists>res. manufacturability_validation (probe_env (3 / 2)) probe_args (Some probe_report) = Inr res
     \<and> gate_holds (man_gates res) ''minimum_wall_thickness''
     \<and> gate_holds (man_gates res) ''sampled_local_wall_thickness''
     \<and> gate_holds (man_gates res) ''overhang_risk''
     \<and> gate_holds (man_gates res) ''stable_contact_footprint''
     \<and> \<not> man_pass res"
proof -
  from probe_gates_eval [of "3 / 2"] obtain res where
    e: "manufacturability_gates probe_args (recess_params (3 / 2))
         \<lparr>probe_status = ''ok'', probe_percentile_mm = JNum (12 / 10)\<rparr> unit_mesh = Inr res" and
    p: "man_pass res = list_all snd (man_gates res)" and
    g: "man_gates res =
         [(''minimum_wall_thickness'', True), (''sampled_local_wall_thickness'', True),
          (''recess_skin_thickness'',
             (if (3 / 2 :: real) = 0 then 2 else 2 - 3 / 2) \<ge> (1::real)
             \<and> (if (3 / 2 :: real) = 0 then 2 else 2 - 3 / 2) \<ge> (0::real)),
          (''overhang_risk'', True), (''stable_contact_footprint'', True)]"
    by (elim exE conjE)
  have "\<not> man_pass res" unfolding p g by simp
  moreover have "gate_holds (man_gates res) ''minimum_wall_thickness''"
    "gate_holds (man_gates res) ''sampled_local_wall_thickness''"
    "gate_holds (man_gates res) ''overhang_risk''"
    "gate_holds (man_gates res) ''stable_contact_footprint''"
    unfolding g gates_five by simp_all
  ultimately show ?thesis
    unfolding probe_validation_eval using e by (intro exI [of _ res]) simp
qed

theorem C7_manufacturability_pass_witness:
  "fails_closed (manufacturability_validation (probe_env (1 / 2)) probe_args None)
 \<and> fails_closed (manufacturability_validation no_preset_env probe_args (Some probe_report))
 \<and> fails_closed (manufacturability_validation no_hull_env probe_args (Some probe_report))
 \<and> (\<exists>res. manufacturability_validation (probe_env (1 / 2)) probe_args (Some probe_report)
            = Inr res
        \<and> man_error res = None
        \<and> man_pass res)"
proof (intro conjI)
  from C7_manufacturability_pass [of None "probe_env (1 / 2)" probe_args]
  show "fails_closed (manufacturability_validation (probe_env (1 / 2)) probe_args None)"
    by simp
next
  have i: "dict_get probe_report ''inputs'' (JDict []) = JDict [(''hull_stl'', JStr ''hull.stl'')]"
    by (simp add: probe_report_def dict_get_def)
  have "\<not> preset_exists no_preset_env
            (dict_get [(''hull_stl'', JStr ''hull.stl'')] ''preset'' (JStr ''gcsc_default''))"
    by (simp add: no_preset_env_def)
  with C7_manufacturability_pass [of "Some probe_report" no_preset_env probe_args] i
  show "fails_closed (manufacturability_validation no_preset_env probe_args (Some probe_report))"
    by simp
next
  have i: "dict_get probe_report ''inputs'' (JDict []) = JDict [(''hull_stl'', JStr ''hull.stl'')]"
    by (simp add: probe_report_def dict_get_def)
  have h: "dict_get [(''hull_stl'', JStr ''hull.stl'')] ''hull_stl'' JNull = JStr ''hull.stl''"
    by (simp add: dict_get_def)
  have "load_hull_mesh no_hull_env ''hull.stl'' = Inl OSError"
    by (simp add: no_hull_env_def)
  with C7_manufacturability_pass [of "Some probe_report" no_hull_env probe_args] i h
  show "fails_closed (manufacturability_validation no_hull_env probe_args (Some probe_report))"
    by simp
next
  from probe_gates_eval [of "1 / 2"] obtain res where
    e: "manufacturability_gates probe_args (recess_params (1 / 2))
         \<lparr>probe_status = ''ok'', probe_percentile_mm = JNum (12 / 10)\<rparr> unit_mesh = Inr res" and
    n: "man_error res = None" and
    g: "man_gates res =
         [(''minimum_wall_thickness'', True), (''sampled_local_wall_thickness'', True),
          (''recess_skin_thickness'',
             (if (1 / 2 :: real) = 0 then 2 else 2 - 1 / 2) \<ge> (1::real)
             \<and> (if (1 / 2 :: real) = 0 then 2 else 2 - 1 / 2) \<ge> (0::real)),
          (''overhang_risk'', True), (''stable_contact_footprint'', True)]"
    by (elim exE conjE)
  have v: "manufacturability_validation (probe_env (1 / 2)) probe_args (Some probe_report) = Inr res"
    unfolding probe_validation_eval by (rule e)
  have h: "gate_holds (man_gates res) ''minimum_wall_thickness''"
    "gate_holds (man_gates res) ''sampled_local_wall_thickness''"
    "gate_holds (man_gates res) ''recess_skin_thickness''"
    "gate_holds (man_gates res) ''overhang_risk''"
    "gate_holds (man_gates res) ''stable_contact_footprint''"
    unfolding g gates_five by simp_all
  from C7_manufacturability_pass [of "Some probe_report" "probe_env (1 / 2)" probe_args] v n h
  have "man_pass res" by simp
  with v n show "\<exists>res. manufacturability_validation (probe_env (1 / 2)) probe_args (Some probe_report)
            = Inr res \<and> man_error res = None \<and> man_pass res"
    by (intro exI [of _ res]) simp
qed

end
